theory Spec2Isabelle
  imports Main "HOL-Library.Sublist"
begin

section \<open>Python values\<close>

text \<open>
  A Python \<open>str\<close> is a list of characters, one \<open>char\<close> per code point; the code points
  up to 255 are all that the literals of \<open>main.py\<close> use. The accented letters of those
  literals are named here.
\<close>

abbreviation (input) a_acute :: string where "a_acute \<equiv> [CHR 0xE1]"
abbreviation (input) i_acute :: string where "i_acute \<equiv> [CHR 0xED]"
abbreviation (input) o_acute :: string where "o_acute \<equiv> [CHR 0xF3]"
abbreviation (input) u_acute :: string where "u_acute \<equiv> [CHR 0xFA]"
abbreviation (input) n_tilde :: string where "n_tilde \<equiv> [CHR 0xF1]"
abbreviation (input) inv_q :: string where "inv_q \<equiv> [CHR 0xBF]"
abbreviation (input) sq :: string where "sq \<equiv> [CHR 0x27]"
abbreviation (input) dq :: string where "dq \<equiv> [CHR 0x22]"

text \<open>
  A float is the dyadic number \<open>m * 2 ^ e\<close>, or one of the three special values that
  Python's JSON decoder accepts. Nothing is computed with floats; only their truth value
  is read.
\<close>

datatype pyfloat = PyFloat int int | PyNaN | PyInf bool

text \<open>
  What \<open>request.json\<close> and \<open>response.json()\<close> produce: the Python value of a JSON
  document. A \<open>dict\<close> is an association list in insertion order (its keys are distinct in
  Python; the first binding of a key is the one looked up).
\<close>

datatype json =
    JNull
  | JBool bool
  | JInt int
  | JFloat pyfloat
  | JStr string
  | JList "json list"
  | JObj "(string \<times> json) list"

text \<open>The exceptions that can reach an \<open>except\<close> clause of the program.\<close>

datatype exn =
    KeyError string \<comment> \<open>the missing key\<close>
  | TypeError string
  | AttributeError string
  | ValueError string
  | OtherError string \<comment> \<open>any other \<open>Exception\<close>, with its text\<close>

text \<open>
  \<open>str(e)\<close>. The text of a \<open>KeyError\<close> is the \<open>repr\<close> of its key: the key between
  single quotes, for the keys of the program (letters and underscores).
\<close>

fun exn_str :: "exn \<Rightarrow> string" where
  "exn_str (KeyError k) = sq @ k @ sq"
| "exn_str (TypeError m) = m"
| "exn_str (AttributeError m) = m"
| "exn_str (ValueError m) = m"
| "exn_str (OtherError m) = m"

text \<open>\<open>bool(v)\<close>: the truth value of a Python value.\<close>

fun truthy :: "json \<Rightarrow> bool" where
  "truthy JNull = False"
| "truthy (JBool b) = b"
| "truthy (JInt i) = (i \<noteq> 0)"
| "truthy (JFloat (PyFloat m e)) = (m \<noteq> 0)"
| "truthy (JFloat PyNaN) = True"
| "truthy (JFloat (PyInf b)) = True"
| "truthy (JStr s) = (s \<noteq> [])"
| "truthy (JList xs) = (xs \<noteq> [])"
| "truthy (JObj kvs) = (kvs \<noteq> [])"

text \<open>The truth value of what \<open>os.environ.get\<close> returns: \<open>None\<close> and \<open>""\<close> are false.\<close>

fun truthy_opt :: "string option \<Rightarrow> bool" where
  "truthy_opt None = False"
| "truthy_opt (Some v) = (v \<noteq> [])"

fun type_name :: "json \<Rightarrow> string" where
  "type_name JNull = ''NoneType''"
| "type_name (JBool b) = ''bool''"
| "type_name (JInt i) = ''int''"
| "type_name (JFloat f) = ''float''"
| "type_name (JStr s) = ''str''"
| "type_name (JList xs) = ''list''"
| "type_name (JObj kvs) = ''dict''"

text \<open>
  \<open>v[k]\<close> with a string key: a \<open>KeyError\<close> on a dict without the key, a
  \<open>TypeError\<close> on anything that is not a dict (the texts are CPython's).
\<close>

fun subscript :: "json \<Rightarrow> string \<Rightarrow> exn + json" where
  "subscript (JObj kvs) k =
     (case map_of kvs k of None \<Rightarrow> Inl (KeyError k) | Some v \<Rightarrow> Inr v)"
| "subscript (JStr s) k = Inl (TypeError (''string indices must be integers, not '' @ sq @ ''str'' @ sq))"
| "subscript (JList xs) k =
     Inl (TypeError ''list indices must be integers or slices, not str'')"
| "subscript v k =
     Inl (TypeError (sq @ type_name v @ sq @ '' object is not subscriptable''))"

text \<open>\<open>v.get(k, d)\<close>: only a dict has the method.\<close>

fun dict_get :: "json \<Rightarrow> string \<Rightarrow> json \<Rightarrow> exn + json" where
  "dict_get (JObj kvs) k d = Inr (case map_of kvs k of None \<Rightarrow> d | Some v \<Rightarrow> v)"
| "dict_get v k d =
     Inl (AttributeError (sq @ type_name v @ sq @ '' object has no attribute '' @ sq @ ''get'' @ sq))"

text \<open>\<open>len(v)\<close>.\<close>

fun py_len :: "json \<Rightarrow> exn + nat" where
  "py_len (JStr s) = Inr (length s)"
| "py_len (JList xs) = Inr (length xs)"
| "py_len (JObj kvs) = Inr (length kvs)"
| "py_len v = Inl (TypeError (''object of type '' @ sq @ type_name v @ sq @ '' has no len()''))"

text \<open>
  The elements a \<open>for\<close> loop over \<open>v\<close> visits: the items of a list, the keys of a dict,
  the characters of a string.
\<close>

fun py_iter :: "json \<Rightarrow> exn + json list" where
  "py_iter (JList xs) = Inr xs"
| "py_iter (JObj kvs) = Inr (map (\<lambda>kv. JStr (fst kv)) kvs)"
| "py_iter (JStr s) = Inr (map (\<lambda>c. JStr [c]) s)"
| "py_iter v = Inl (TypeError (sq @ type_name v @ sq @ '' object is not iterable''))"

text \<open>A list comprehension whose element expression can raise: the first failure wins.\<close>

fun map_exn :: "('a \<Rightarrow> exn + 'b) \<Rightarrow> 'a list \<Rightarrow> exn + 'b list" where
  "map_exn f [] = Inr []"
| "map_exn f (x # xs) =
     (case f x of
        Inl e \<Rightarrow> Inl e
      | Inr y \<Rightarrow> (case map_exn f xs of Inl e \<Rightarrow> Inl e | Inr ys \<Rightarrow> Inr (y # ys)))"

text \<open>Whether a value is a dict, and whether it is a dict with a given key.\<close>

fun is_dict :: "json \<Rightarrow> bool" where
  "is_dict (JObj kvs) = True"
| "is_dict v = False"

fun has_key :: "string \<Rightarrow> json \<Rightarrow> bool" where
  "has_key k (JObj kvs) = (map_of kvs k \<noteq> None)"
| "has_key k v = False"

text \<open>Decimal digits of a natural number, and \<open>str\<close> of an \<open>int\<close>.\<close>

definition digit_char :: "nat \<Rightarrow> char" where
  "digit_char d =
     (if d = 0 then CHR ''0'' else if d = 1 then CHR ''1'' else if d = 2 then CHR ''2''
      else if d = 3 then CHR ''3'' else if d = 4 then CHR ''4'' else if d = 5 then CHR ''5''
      else if d = 6 then CHR ''6'' else if d = 7 then CHR ''7'' else if d = 8 then CHR ''8''
      else CHR ''9'')"

fun str_nat :: "nat \<Rightarrow> string" where
  "str_nat n =
     (if n < 10 then [digit_char n] else str_nat (n div 10) @ [digit_char (n mod 10)])"

declare str_nat.simps [simp del]

definition str_int :: "int \<Rightarrow> string" where
  "str_int i = (if i < 0 then ''-'' @ str_nat (nat (- i)) else str_nat (nat i))"

text \<open>
  \<open>''.join(xs)\<close>: every item must be a \<open>str\<close>; the first that is not raises a
  \<open>TypeError\<close> naming its position.
\<close>

fun join_from :: "nat \<Rightarrow> json list \<Rightarrow> exn + string" where
  "join_from i [] = Inr []"
| "join_from i (JStr s # xs) =
     (case join_from (Suc i) xs of Inl e \<Rightarrow> Inl e | Inr r \<Rightarrow> Inr (s @ r))"
| "join_from i (v # xs) =
     Inl (TypeError (''sequence item '' @ str_nat i @ '': expected str instance, ''
                     @ type_name v @ '' found''))"

definition str_join :: "json list \<Rightarrow> exn + string" where
  "str_join xs = join_from 0 xs"

text \<open>\<open>sep.join(xs)\<close> on strings.\<close>

fun sep_join :: "string \<Rightarrow> string list \<Rightarrow> string" where
  "sep_join sep [] = []"
| "sep_join sep [x] = x"
| "sep_join sep (x # y # ys) = x @ sep @ sep_join sep (y # ys)"

text \<open>\<open>s.split(c)\<close> for a one-character separator.\<close>

fun split_on :: "char \<Rightarrow> string \<Rightarrow> string list" where
  "split_on c [] = [[]]"
| "split_on c (x # xs) =
     (if x = c then [] # split_on c xs
      else (case split_on c xs of [] \<Rightarrow> [[x]] | p # ps \<Rightarrow> (x # p) # ps))"

text \<open>\<open>s.strip()\<close>: the white space of Python among the code points up to 255.\<close>

definition py_isspace :: "char \<Rightarrow> bool" where
  "py_isspace c =
     (let n = (of_char c :: nat)
      in (9 \<le> n \<and> n \<le> 13) \<or> (28 \<le> n \<and> n \<le> 32) \<or> n = 133 \<or> n = 160)"

definition strip :: "string \<Rightarrow> string" where
  "strip s = rev (dropWhile py_isspace (rev (dropWhile py_isspace s)))"

section \<open>Configuration\<close>

text \<open>
  The module reads \<open>openai.api_key\<close>, \<open>gitlab_token\<close> and \<open>gitlab_url\<close> from the
  environment once, when it is loaded; the handlers read the other variables from
  \<open>os.environ\<close> at each request.
\<close>

record settings =
  openai_api_key :: "string option"
  gitlab_token :: "string option"
  gitlab_url :: "string option"
  environ :: "string \<Rightarrow> string option"

definition load_settings :: "(string \<Rightarrow> string option) \<Rightarrow> settings" where
  "load_settings env =
     \<lparr> openai_api_key = env ''OPENAI_API_KEY'',
       gitlab_token = env ''GITLAB_TOKEN'',
       gitlab_url = env ''GITLAB_URL'',
       environ = env \<rparr>"

definition required_vars :: "string list" where
  "required_vars = [''OPENAI_API_KEY'', ''GITLAB_TOKEN'', ''GITLAB_URL'', ''EXPECTED_GITLAB_TOKEN'']"

definition validate_environment :: "(string \<Rightarrow> string option) \<Rightarrow> exn + unit" where
  "validate_environment env =
     (let missing_vars = filter (\<lambda>var. \<not> truthy_opt (env var)) required_vars
      in if missing_vars \<noteq> []
         then Inl (ValueError (''Faltan las siguientes variables de entorno: ''
                               @ sep_join '', '' missing_vars))
         else Inr ())"

section \<open>The health check\<close>

type_synonym response = "string \<times> int"

text \<open>
  \<open>json.dumps(status, indent=2)\<close> for the flat dict of \<open>health_check\<close>, whose values are
  a string (\<open>Inl\<close>) or a \<open>bool\<close> (\<open>Inr\<close>).
\<close>

fun dumps_value :: "string + bool \<Rightarrow> string" where
  "dumps_value (Inl s) = dq @ s @ dq"
| "dumps_value (Inr True) = ''true''"
| "dumps_value (Inr False) = ''false''"

definition dumps_indent2 :: "(string \<times> (string + bool)) list \<Rightarrow> string" where
  "dumps_indent2 kvs =
     (if kvs = [] then ''{}''
      else ''{\<newline>''
           @ sep_join '',\<newline>''
               (map (\<lambda>kv. ''  '' @ dq @ fst kv @ dq @ '': '' @ dumps_value (snd kv)) kvs)
           @ ''\<newline>}'')"

fun truthy_value :: "string + bool \<Rightarrow> bool" where
  "truthy_value (Inl s) = (s \<noteq> [])"
| "truthy_value (Inr b) = b"

definition health_status :: "settings \<Rightarrow> (string \<times> (string + bool)) list" where
  "health_status s =
     [(''status'', Inl ''healthy''),
      (''openai_configured'', Inr (truthy_opt (openai_api_key s))),
      (''gitlab_configured'', Inr (truthy_opt (gitlab_token s) \<and> truthy_opt (gitlab_url s))),
      (''expected_token_configured'', Inr (truthy_opt (environ s ''EXPECTED_GITLAB_TOKEN''))),
      (''azure_configured'', Inr (truthy_opt (environ s ''AZURE_OPENAI_API_BASE'')))]"

definition health_check :: "settings \<Rightarrow> response" where
  "health_check s =
     (let status = health_status s;
          all_configured = list_all (\<lambda>kv. truthy_value (snd kv)) status;
          status' = (if \<not> all_configured
                     then (''status'', Inl ''unhealthy'') # tl status else status)
      in (dumps_indent2 status', if all_configured then 200 else 500))"

section \<open>The outside world\<close>

text \<open>
  \<open>str(v)\<close> as an f-string formats a value. The \<open>repr\<close> of a float, a list or a dict
  is Python's own and is taken as a parameter.
\<close>

fun py_str :: "(json \<Rightarrow> string) \<Rightarrow> json \<Rightarrow> string" where
  "py_str r (JStr s) = s"
| "py_str r JNull = ''None''"
| "py_str r (JBool True) = ''True''"
| "py_str r (JBool False) = ''False''"
| "py_str r (JInt i) = str_int i"
| "py_str r v = r v"

fun str_opt :: "string option \<Rightarrow> string" where
  "str_opt None = ''None''"
| "str_opt (Some v) = v"

type_synonym headers = "(string \<times> string option) list"

record http_response =
  status_code :: int
  resp_json :: "exn + json" \<comment> \<open>what \<open>response.json()\<close> returns or raises\<close>

text \<open>
  What the program does to its surroundings, in order: reading the request body as JSON,
  the two calls of \<open>requests\<close>, and the two ways of asking for a review
  (\<open>client.responses.create\<close> of a client built with an API key and a base URL, and
  \<open>openai.ChatCompletion.create\<close>).
\<close>

datatype event =
    RequestJson
  | RequestsGet string headers
  | ResponsesCreate "string option" string string string
      \<comment> \<open>\<open>api_key\<close>, \<open>base_url\<close>, \<open>model\<close>, \<open>input\<close>\<close>
  | ChatCompletionCreate "string option" string pyfloat bool "(string \<times> string) list"
      \<comment> \<open>\<open>deployment_id\<close>, \<open>model\<close>, \<open>temperature\<close>, \<open>stream\<close>, \<open>messages\<close>\<close>
  | RequestsPost string headers json

text \<open>
  The answers of the surroundings. A review call answers with the text the handler reads
  from the result (\<open>response.output_text\<close>, \<open>completions.choices[0].message["content"]\<close>),
  or with the exception raised anywhere inside the handler's inner \<open>try\<close>.
\<close>

record world =
  py_repr :: "json \<Rightarrow> string"
  requests_get :: "string \<Rightarrow> headers \<Rightarrow> exn + http_response"
  requests_post :: "string \<Rightarrow> headers \<Rightarrow> json \<Rightarrow> exn + http_response"
  responses_create :: "string option \<Rightarrow> string \<Rightarrow> string \<Rightarrow> string \<Rightarrow> exn + string"
  chat_completion_create ::
    "string option \<Rightarrow> string \<Rightarrow> pyfloat \<Rightarrow> bool \<Rightarrow> (string \<times> string) list \<Rightarrow> exn + string"

text \<open>
  A statement of a handler raises, returns from the handler, or goes on with a value.
\<close>

datatype 'a step = Raise exn | Return response | Continue 'a

fun and_then :: "exn + 'a \<Rightarrow> ('a \<Rightarrow> 'b step) \<Rightarrow> 'b step" where
  "and_then (Inl e) f = Raise e"
| "and_then (Inr v) f = f v"

fun bind_exn :: "exn + 'a \<Rightarrow> ('a \<Rightarrow> exn + 'b) \<Rightarrow> exn + 'b" where
  "bind_exn (Inl e) f = Inl e"
| "bind_exn (Inr v) f = f v"

definition attribution :: string where
  "attribution =
     ''\<newline>\<newline>Este comentario fue generado por un pato de inteligencia artificial.''"

section \<open>The merge request handler\<close>

definition mr_fields :: "json \<Rightarrow> (json \<times> json) step" where
  "mr_fields payload =
     and_then (subscript payload ''object_attributes'') (\<lambda>attrs.
     and_then (subscript attrs ''action'') (\<lambda>action.
       if action \<noteq> JStr ''open'' then Return (''No es un MR de apertura'', 200)
       else
     and_then (subscript payload ''project'') (\<lambda>project.
     and_then (subscript project ''id'') (\<lambda>project_id.
     and_then (subscript payload ''object_attributes'') (\<lambda>attrs'.
     and_then (subscript attrs' ''iid'') (\<lambda>mr_id.
     and_then (subscript payload ''project'') (\<lambda>project'.
     and_then (subscript project' ''name'') (\<lambda>project_name.
       Continue (project_id, mr_id)))))))))"

definition mr_changes_url :: "world \<Rightarrow> settings \<Rightarrow> json \<Rightarrow> json \<Rightarrow> string" where
  "mr_changes_url w s project_id mr_id =
     str_opt (gitlab_url s) @ ''/projects/'' @ py_str (py_repr w) project_id
       @ ''/merge_requests/'' @ py_str (py_repr w) mr_id @ ''/changes''"

definition mr_comment_url :: "world \<Rightarrow> settings \<Rightarrow> json \<Rightarrow> json \<Rightarrow> string" where
  "mr_comment_url w s project_id mr_id =
     str_opt (gitlab_url s) @ ''/projects/'' @ py_str (py_repr w) project_id
       @ ''/merge_requests/'' @ py_str (py_repr w) mr_id @ ''/notes''"

definition private_token :: "settings \<Rightarrow> headers" where
  "private_token s = [(''Private-Token'', gitlab_token s)]"

text \<open>
  From the answer of GitLab to the text of the diffs: \<open>response.json()\<close>, the length
  that is logged, the list of the \<open>diff\<close> fields and their concatenation.
\<close>

definition mr_diffs :: "http_response \<Rightarrow> exn + string" where
  "mr_diffs response =
     bind_exn (resp_json response) (\<lambda>mr_changes.
     bind_exn (dict_get mr_changes ''changes'' (JList [])) (\<lambda>logged.
     bind_exn (py_len logged) (\<lambda>n.
     bind_exn (subscript mr_changes ''changes'') (\<lambda>changes.
     bind_exn (py_iter changes) (\<lambda>items.
     bind_exn (map_exn (\<lambda>change. subscript change ''diff'') items) (\<lambda>diffs.
       str_join diffs))))))"

definition mr_pre_prompt :: string where
  "mr_pre_prompt =
     ''Revisa los siguientes cambios de c'' @ o_acute @ ''digo git diff, enfoc'' @ a_acute
     @ ''ndote en estructura, seguridad, claridad, arquitectura hexagonal, separaci''
     @ o_acute @ ''n de responsabilidades y orientaci'' @ o_acute @ ''n a objetos.''"

definition mr_questions :: string where
  "mr_questions =
     ''\<newline>''
     @ ''        Preguntas:\<newline>''
     @ ''        1. Resume los cambios principales.\<newline>''
     @ ''        2. '' @ inv_q @ ''Es claro el c'' @ o_acute @ ''digo nuevo/modificado?\<newline>''
     @ ''        3. '' @ inv_q @ ''Son descriptivos los comentarios y nombres?\<newline>''
     @ ''        4. '' @ inv_q @ ''Se puede reducir la complejidad? '' @ inv_q @ ''Ejemplos?\<newline>''
     @ ''        5. '' @ inv_q @ ''Alg'' @ u_acute @ ''n bug? '' @ inv_q @ ''D'' @ o_acute @ ''nde?\<newline>''
     @ ''        6. '' @ inv_q @ ''Problemas de seguridad potenciales?\<newline>''
     @ ''        7. '' @ inv_q
     @ ''Los cambios respetan la arquitectura hexagonal (puertos y adaptadores)?\<newline>''
     @ ''        8. '' @ inv_q @ ''Hay una adecuada separaci'' @ o_acute
     @ ''n de incumbencias (responsabilidades)?\<newline>''
     @ ''        9. '' @ inv_q @ ''El c'' @ o_acute @ ''digo est'' @ a_acute
     @ '' bien orientado a objetos (encapsulaci'' @ o_acute
     @ ''n, herencia, polimorfismo)?\<newline>''
     @ ''        10. '' @ inv_q @ ''Sugerencias para alineaci'' @ o_acute
     @ ''n con mejores pr'' @ a_acute @ ''cticas?\<newline>''
     @ ''        ''"

definition mr_messages :: "string \<Rightarrow> (string \<times> string) list" where
  "mr_messages diffs =
     [(''system'',
       ''Eres un desarrollador senior especializado en arquitectura de software, ''
       @ ''revisando cambios de c'' @ o_acute
       @ ''digo con enfoque en arquitectura hexagonal, separaci'' @ o_acute
       @ ''n de responsabilidades, orientaci'' @ o_acute @ ''n a objetos y mejores pr''
       @ a_acute @ ''cticas de desarrollo.''),
      (''user'', mr_pre_prompt @ ''\<newline>\<newline>'' @ diffs @ mr_questions),
      (''assistant'',
       ''Responde en markdown compatible con GitLab. Incluye una versi'' @ o_acute
       @ ''n concisa de cada pregunta en tu respuesta, prestando especial atenci''
       @ o_acute @ ''n a los aspectos arquitect'' @ o_acute @ ''nicos y de dise''
       @ n_tilde @ ''o.'')]"

definition mr_input :: "string \<Rightarrow> string" where
  "mr_input diffs = sep_join ''\<newline>\<newline>'' (map snd (mr_messages diffs))"

definition mr_apology :: string where
  "mr_apology =
     ''Lo siento, no me siento bien hoy. Por favor, pide a un humano que revise este PR.''"

text \<open>The inner \<open>try\<close>: the answer on success, the answer on any exception.\<close>

fun mr_answer :: "exn + string \<Rightarrow> string" where
  "mr_answer (Inr output_text) = strip output_text @ attribution"
| "mr_answer (Inl e) = mr_apology @ attribution @ ''\<newline>\<newline>Error: '' @ exn_str e"

text \<open>
  The review call of the merge request handler: a client for a fixed base URL, with the
  API key of the environment, and a fixed model name.
\<close>

definition mr_review_call :: "settings \<Rightarrow> string \<Rightarrow> event" where
  "mr_review_call s diffs =
     ResponsesCreate (environ s ''OPENAI_API_KEY'') ''https://api.groq.com/openai/v1''
       ''llama-3.1-8b-instant'' (mr_input diffs)"

definition mr_review :: "world \<Rightarrow> settings \<Rightarrow> string \<Rightarrow> exn + string" where
  "mr_review w s diffs =
     responses_create w (environ s ''OPENAI_API_KEY'') ''https://api.groq.com/openai/v1''
       ''llama-3.1-8b-instant'' (mr_input diffs)"

text \<open>The body of the outer \<open>try\<close>, with the events it causes.\<close>

definition mr_try :: "world \<Rightarrow> settings \<Rightarrow> json \<Rightarrow> (exn + response) \<times> event list" where
  "mr_try w s payload =
     (case mr_fields payload of
        Raise e \<Rightarrow> (Inl e, [])
      | Return r \<Rightarrow> (Inr r, [])
      | Continue (project_id, mr_id) \<Rightarrow>
          let changes_url = mr_changes_url w s project_id mr_id;
              headers = private_token s;
              fetch = RequestsGet changes_url headers
          in (case requests_get w changes_url headers of
                Inl e \<Rightarrow> (Inl e, [fetch])
              | Inr response \<Rightarrow>
                  if status_code response \<noteq> 200
                  then (Inr (''Error al obtener cambios del MR: ''
                             @ str_int (status_code response), 500), [fetch])
                  else
                    (case mr_diffs response of
                       Inl e \<Rightarrow> (Inl e, [fetch])
                     | Inr diffs \<Rightarrow>
                         let review = mr_review_call s diffs;
                             answer = mr_answer (mr_review w s diffs);
                             comment_url = mr_comment_url w s project_id mr_id;
                             comment_payload = JObj [(''body'', JStr answer)];
                             post = RequestsPost comment_url headers comment_payload
                         in (case requests_post w comment_url headers comment_payload of
                               Inl e \<Rightarrow> (Inl e, [fetch, review, post])
                             | Inr comment_response \<Rightarrow>
                                 (Inr (''OK'', 200), [fetch, review, post])))))"

text \<open>The two \<open>except\<close> clauses of the outer \<open>try\<close>.\<close>

fun mr_except :: "exn \<Rightarrow> response" where
  "mr_except (KeyError k) = (''Campo faltante en el payload: '' @ exn_str (KeyError k), 400)"
| "mr_except e = (''Error procesando MR: '' @ exn_str e, 500)"

definition process_merge_request :: "world \<Rightarrow> settings \<Rightarrow> json \<Rightarrow> response \<times> event list" where
  "process_merge_request w s payload =
     (case mr_try w s payload of
        (Inl e, evs) \<Rightarrow> (mr_except e, evs)
      | (Inr r, evs) \<Rightarrow> (r, evs))"

section \<open>The push handler\<close>

definition push_fields :: "json \<Rightarrow> (json \<times> json) step" where
  "push_fields payload =
     and_then (subscript payload ''project_id'') (\<lambda>project_id.
     and_then (subscript payload ''after'') (\<lambda>commit_id.
     and_then (dict_get payload ''project'' (JObj [])) (\<lambda>project.
     and_then (dict_get project ''name'' (JStr ''Proyecto desconocido'')) (\<lambda>project_name.
       Continue (project_id, commit_id)))))"

definition push_commit_url :: "world \<Rightarrow> settings \<Rightarrow> json \<Rightarrow> json \<Rightarrow> string" where
  "push_commit_url w s project_id commit_id =
     str_opt (gitlab_url s) @ ''/projects/'' @ py_str (py_repr w) project_id
       @ ''/repository/commits/'' @ py_str (py_repr w) commit_id @ ''/diff''"

definition push_comment_url :: "world \<Rightarrow> settings \<Rightarrow> json \<Rightarrow> json \<Rightarrow> string" where
  "push_comment_url w s project_id commit_id =
     str_opt (gitlab_url s) @ ''/projects/'' @ py_str (py_repr w) project_id
       @ ''/repository/commits/'' @ py_str (py_repr w) commit_id @ ''/comments''"

text \<open>
  From the answer of GitLab to \<open>changes_string\<close>: \<open>response.json()\<close>, the length that
  is logged, and \<open>str\<close> of every change record.
\<close>

definition push_changes :: "world \<Rightarrow> http_response \<Rightarrow> exn + string" where
  "push_changes w response =
     bind_exn (resp_json response) (\<lambda>changes.
     bind_exn (py_len changes) (\<lambda>n.
     bind_exn (py_iter changes) (\<lambda>items.
       Inr (concat (map (py_str (py_repr w)) items)))))"

definition push_pre_prompt :: string where
  "push_pre_prompt =
     ''Revisa el git diff de un commit reciente, enfoc'' @ a_acute
     @ ''ndote en claridad, estructura, seguridad, arquitectura hexagonal, separaci''
     @ o_acute @ ''n de responsabilidades y orientaci'' @ o_acute @ ''n a objetos.''"

definition push_questions :: string where
  "push_questions =
     ''\<newline>''
     @ ''        Preguntas:\<newline>''
     @ ''        1. Resume los cambios (estilo Changelog).\<newline>''
     @ ''        2. '' @ inv_q @ ''Claridad del c'' @ o_acute @ ''digo agregado/modificado?\<newline>''
     @ ''        3. '' @ inv_q @ ''Adecuaci'' @ o_acute @ ''n de comentarios y nombres?\<newline>''
     @ ''        4. '' @ inv_q @ ''Simplificaci'' @ o_acute @ ''n sin romper funcionalidad? ''
     @ inv_q @ ''Ejemplos?\<newline>''
     @ ''        5. '' @ inv_q @ ''Alg'' @ u_acute @ ''n bug? '' @ inv_q @ ''D'' @ o_acute @ ''nde?\<newline>''
     @ ''        6. '' @ inv_q @ ''Problemas de seguridad potenciales?\<newline>''
     @ ''        7. '' @ inv_q
     @ ''Los cambios respetan la arquitectura hexagonal (puertos y adaptadores)?\<newline>''
     @ ''        8. '' @ inv_q @ ''Hay una adecuada separaci'' @ o_acute
     @ ''n de incumbencias (responsabilidades)?\<newline>''
     @ ''        9. '' @ inv_q @ ''El c'' @ o_acute @ ''digo est'' @ a_acute
     @ '' bien orientado a objetos (encapsulaci'' @ o_acute
     @ ''n, herencia, polimorfismo)?\<newline>''
     @ ''        ''"

definition push_messages :: "string \<Rightarrow> (string \<times> string) list" where
  "push_messages changes_string =
     [(''system'',
       ''Eres un desarrollador senior especializado en arquitectura de software, ''
       @ ''revisando cambios de c'' @ o_acute
       @ ''digo de un commit con enfoque en arquitectura hexagonal, separaci'' @ o_acute
       @ ''n de responsabilidades, orientaci'' @ o_acute @ ''n a objetos y mejores pr''
       @ a_acute @ ''cticas de desarrollo.''),
      (''user'', push_pre_prompt @ ''\<newline>\<newline>'' @ changes_string @ push_questions),
      (''assistant'',
       ''Responde en markdown para GitLab. Incluye versiones concisas de las preguntas ''
       @ ''en la respuesta, prestando especial atenci'' @ o_acute
       @ ''n a los aspectos arquitect'' @ o_acute @ ''nicos y de dise'' @ n_tilde @ ''o.'')]"

definition push_apology :: string where
  "push_apology =
     ''Lo siento, no me siento bien hoy. Por favor, pide a un humano que revise este ''
     @ ''cambio de c'' @ o_acute @ ''digo.''"

text \<open>
  The model name of the push handler: \<open>os.environ.get("OPENAI_API_MODEL") or
  "gpt-3.5-turbo"\<close>.
\<close>

definition push_model :: "settings \<Rightarrow> string" where
  "push_model s =
     (if truthy_opt (environ s ''OPENAI_API_MODEL'')
      then str_opt (environ s ''OPENAI_API_MODEL'') else ''gpt-3.5-turbo'')"

text \<open>The literal \<open>0.7\<close>: the nearest double.\<close>

definition temperature :: pyfloat where
  "temperature = PyFloat 3152519739159347 (- 52)"

text \<open>The inner \<open>try\<close>: on success the questions are listed after the review.\<close>

fun push_answer :: "exn + string \<Rightarrow> string" where
  "push_answer (Inr content) =
     foldl (\<lambda>answer question. answer @ ''\<newline>'' @ question)
       (strip content
        @ ''\<newline>\<newline>Para referencia, me dieron las siguientes preguntas: \<newline>'')
       (split_on CHR ''\<newline>'' push_questions)
     @ attribution"
| "push_answer (Inl e) =
     push_apology @ attribution @ ''\<newline>\<newline>Error: '' @ exn_str e"

text \<open>
  The review call of the push handler: the module-wide client, with the configured model
  name or the default one.
\<close>

definition push_review_call :: "settings \<Rightarrow> string \<Rightarrow> event" where
  "push_review_call s changes_string =
     ChatCompletionCreate (environ s ''OPENAI_API_MODEL'') (push_model s) temperature False
       (push_messages changes_string)"

definition push_review :: "world \<Rightarrow> settings \<Rightarrow> string \<Rightarrow> exn + string" where
  "push_review w s changes_string =
     chat_completion_create w (environ s ''OPENAI_API_MODEL'') (push_model s) temperature
       False (push_messages changes_string)"

definition push_try :: "world \<Rightarrow> settings \<Rightarrow> json \<Rightarrow> (exn + response) \<times> event list" where
  "push_try w s payload =
     (case push_fields payload of
        Raise e \<Rightarrow> (Inl e, [])
      | Return r \<Rightarrow> (Inr r, [])
      | Continue (project_id, commit_id) \<Rightarrow>
          let commit_url = push_commit_url w s project_id commit_id;
              headers = private_token s;
              fetch = RequestsGet commit_url headers
          in (case requests_get w commit_url headers of
                Inl e \<Rightarrow> (Inl e, [fetch])
              | Inr response \<Rightarrow>
                  if status_code response \<noteq> 200
                  then (Inr (''Error al obtener diff del commit: ''
                             @ str_int (status_code response), 500), [fetch])
                  else
                    (case push_changes w response of
                       Inl e \<Rightarrow> (Inl e, [fetch])
                     | Inr changes_string \<Rightarrow>
                         let review = push_review_call s changes_string;
                             answer = push_answer (push_review w s changes_string);
                             comment_url = push_comment_url w s project_id commit_id;
                             comment_payload = JObj [(''note'', JStr answer)];
                             post = RequestsPost comment_url headers comment_payload
                         in (case requests_post w comment_url headers comment_payload of
                               Inl e \<Rightarrow> (Inl e, [fetch, review, post])
                             | Inr comment_response \<Rightarrow>
                                 (Inr (''OK'', 200), [fetch, review, post])))))"

fun push_except :: "exn \<Rightarrow> response" where
  "push_except (KeyError k) = (''Campo faltante en el payload: '' @ exn_str (KeyError k), 400)"
| "push_except e = (''Error procesando push: '' @ exn_str e, 500)"

definition process_push_event :: "world \<Rightarrow> settings \<Rightarrow> json \<Rightarrow> response \<times> event list" where
  "process_push_event w s payload =
     (case push_try w s payload of
        (Inl e, evs) \<Rightarrow> (push_except e, evs)
      | (Inr r, evs) \<Rightarrow> (r, evs))"

section \<open>The webhook\<close>

record request =
  gitlab_token_header :: "string option" \<comment> \<open>\<open>request.headers.get("X-Gitlab-Token")\<close>\<close>
  request_json :: "exn + json" \<comment> \<open>what reading \<open>request.json\<close> returns or raises\<close>

definition webhook :: "world \<Rightarrow> settings \<Rightarrow> request \<Rightarrow> (exn + response) \<times> event list" where
  "webhook w s req =
     (let received_token = gitlab_token_header req;
          expected_token = environ s ''EXPECTED_GITLAB_TOKEN''
      in if received_token \<noteq> expected_token then (Inr (''No autorizado'', 403), [])
         else
           (case request_json req of
              Inl e \<Rightarrow> (Inr (''Error en el payload JSON'', 400), [RequestJson])
            | Inr payload \<Rightarrow>
                if \<not> truthy payload
                then (Inr (''Payload vac'' @ i_acute @ ''o'', 400), [RequestJson])
                else
                  (case dict_get payload ''object_kind'' JNull of
                     Inl e \<Rightarrow> (Inl e, [RequestJson])
                   | Inr object_kind \<Rightarrow>
                       if object_kind = JStr ''merge_request''
                       then (case process_merge_request w s payload of
                               (r, evs) \<Rightarrow> (Inr r, RequestJson # evs))
                       else if object_kind = JStr ''push''
                       then (case process_push_event w s payload of
                               (r, evs) \<Rightarrow> (Inr r, RequestJson # evs))
                       else (Inr (''Tipo de evento no soportado: ''
                                  @ py_str (py_repr w) object_kind, 200), [RequestJson]))))"

text \<open>
  An exception that leaves \<open>webhook\<close> reaches the application's handler for status 500.
\<close>

definition internal_error :: "exn \<Rightarrow> response" where
  "internal_error error = (''Error interno del servidor'', 500)"

definition post_webhook :: "world \<Rightarrow> settings \<Rightarrow> request \<Rightarrow> response \<times> event list" where
  "post_webhook w s req =
     (case webhook w s req of
        (Inl e, evs) \<Rightarrow> (internal_error e, evs)
      | (Inr r, evs) \<Rightarrow> (r, evs))"

text \<open>The calls that leave the process.\<close>

fun outbound :: "event \<Rightarrow> bool" where
  "outbound RequestJson = False"
| "outbound e = True"

section \<open>Example inputs\<close>

text \<open>
  A complete environment without the optional variables, the two payloads of
  \<open>test_webhook.py\<close> (the merge request with the numbers of the specification's
  scenario), and surroundings that give fixed answers.
\<close>

definition example_env :: "string \<Rightarrow> string option" where
  "example_env =
     map_of [(''OPENAI_API_KEY'', ''sk-test''),
             (''GITLAB_TOKEN'', ''glpat-test''),
             (''GITLAB_URL'', ''https://gitlab.example.com/api/v4''),
             (''EXPECTED_GITLAB_TOKEN'', ''test-token-123'')]"

definition example_settings :: settings where
  "example_settings = load_settings example_env"

definition example_world ::
  "exn + http_response \<Rightarrow> exn + string \<Rightarrow> exn + http_response \<Rightarrow> world" where
  "example_world fetched reviewed posted =
     \<lparr> py_repr = (\<lambda>v. ''<'' @ type_name v @ ''>''),
       requests_get = (\<lambda>url hs. fetched),
       requests_post = (\<lambda>url hs body. posted),
       responses_create = (\<lambda>api_key base_url model input. reviewed),
       chat_completion_create = (\<lambda>deployment_id model temp stream messages. reviewed) \<rparr>"

definition mr_payload :: json where
  "mr_payload =
     JObj [(''object_kind'', JStr ''merge_request''),
           (''object_attributes'', JObj [(''action'', JStr ''open''), (''iid'', JInt 5)]),
           (''project'', JObj [(''id'', JInt 1), (''name'', JStr ''p'')])]"

definition push_payload :: json where
  "push_payload =
     JObj [(''object_kind'', JStr ''push''),
           (''project_id'', JInt 1),
           (''after'', JStr ''abc123def456''),
           (''project'', JObj [(''name'', JStr ''test-project'')])]"

definition mr_changes_ok :: http_response where
  "mr_changes_ok =
     \<lparr> status_code = 200,
       resp_json = Inr (JObj [(''changes'', JList [JObj [(''diff'', JStr ''+x'')]])]) \<rparr>"

definition commit_diff_ok :: http_response where
  "commit_diff_ok =
     \<lparr> status_code = 200, resp_json = Inr (JList [JStr ''+x'', JStr ''-y'']) \<rparr>"

definition not_found :: http_response where
  "not_found = \<lparr> status_code = 404, resp_json = Inr (JObj [(''message'', JStr ''404 Not found'')]) \<rparr>"

definition created :: http_response where
  "created = \<lparr> status_code = 201, resp_json = Inr (JObj [(''id'', JInt 7)]) \<rparr>"

definition forbidden :: http_response where
  "forbidden = \<lparr> status_code = 403, resp_json = Inr (JObj [(''message'', JStr ''403 Forbidden'')]) \<rparr>"

text \<open>Answers of GitLab to the fetch of a merge request that lack a key.\<close>

definition no_changes_key :: http_response where
  "no_changes_key =
     \<lparr> status_code = 200,
       resp_json = Inr (JObj [(''id'', JInt 9), (''title'', JStr ''Test MR'')]) \<rparr>"

definition no_diff_key :: http_response where
  "no_diff_key =
     \<lparr> status_code = 200,
       resp_json = Inr (JObj [(''changes'', JList [JObj [(''diff'', JStr ''+x'')],
                                                  JObj [(''new_path'', JStr ''a.py'')]])]) \<rparr>"

text \<open>The environment with a model name configured, and without the shared secret.\<close>

definition gpt4_settings :: settings where
  "gpt4_settings = load_settings (example_env(''OPENAI_API_MODEL'' := Some ''gpt-4''))"

definition unguarded_settings :: settings where
  "unguarded_settings =
     example_settings \<lparr> environ := example_env(''EXPECTED_GITLAB_TOKEN'' := None) \<rparr>"

text \<open>The comment of the merge request handler when the review call fails with \<open>boom\<close>.\<close>

definition boom_comment :: string where
  "boom_comment =
     ''Lo siento, no me siento bien hoy. Por favor, pide a un humano que revise este PR.''
     @ ''\<newline>\<newline>Este comentario fue generado por un pato de inteligencia artificial.''
     @ ''\<newline>\<newline>Error: boom''"

text \<open>The comment of the push handler when the review call fails with \<open>boom\<close>.\<close>

definition push_boom_comment :: string where
  "push_boom_comment =
     ''Lo siento, no me siento bien hoy. Por favor, pide a un humano que revise este ''
     @ ''cambio de c'' @ o_acute @ ''digo.''
     @ ''\<newline>\<newline>Este comentario fue generado por un pato de inteligencia artificial.''
     @ ''\<newline>\<newline>Error: boom''"

section \<open>The course of the handlers\<close>

text \<open>
  Once the fields are read, the fetch answers 200 and the diffs are read, a handler asks
  for the review and posts the comment; its result depends only on whether the post
  raises.
\<close>

lemma mr_try_reached:
  assumes "mr_fields payload = Continue (project_id, mr_id)"
    and "requests_get w (mr_changes_url w s project_id mr_id) (private_token s) = Inr response"
    and "status_code response = 200"
    and "mr_diffs response = Inr diffs"
  shows "mr_try w s payload =
     (case requests_post w (mr_comment_url w s project_id mr_id) (private_token s)
             (JObj [(''body'', JStr (mr_answer (mr_review w s diffs)))]) of
        Inl e \<Rightarrow> Inl e
      | Inr comment_response \<Rightarrow> Inr (''OK'', 200),
      [RequestsGet (mr_changes_url w s project_id mr_id) (private_token s),
       mr_review_call s diffs,
       RequestsPost (mr_comment_url w s project_id mr_id) (private_token s)
         (JObj [(''body'', JStr (mr_answer (mr_review w s diffs)))])])"
  using assms by (simp add: mr_try_def Let_def split: sum.splits)

lemma push_try_reached:
  assumes "push_fields payload = Continue (project_id, commit_id)"
    and "requests_get w (push_commit_url w s project_id commit_id) (private_token s) = Inr response"
    and "status_code response = 200"
    and "push_changes w response = Inr changes_string"
  shows "push_try w s payload =
     (case requests_post w (push_comment_url w s project_id commit_id) (private_token s)
             (JObj [(''note'', JStr (push_answer (push_review w s changes_string)))]) of
        Inl e \<Rightarrow> Inl e
      | Inr comment_response \<Rightarrow> Inr (''OK'', 200),
      [RequestsGet (push_commit_url w s project_id commit_id) (private_token s),
       push_review_call s changes_string,
       RequestsPost (push_comment_url w s project_id commit_id) (private_token s)
         (JObj [(''note'', JStr (push_answer (push_review w s changes_string)))])])"
  using assms by (simp add: push_try_def Let_def split: sum.splits)

lemma mr_try_fetch_failed:
  assumes "mr_fields payload = Continue (project_id, mr_id)"
    and "requests_get w (mr_changes_url w s project_id mr_id) (private_token s) = Inr response"
    and "status_code response \<noteq> 200"
  shows "mr_try w s payload =
     (Inr (''Error al obtener cambios del MR: '' @ str_int (status_code response), 500),
      [RequestsGet (mr_changes_url w s project_id mr_id) (private_token s)])"
  using assms by (simp add: mr_try_def Let_def)

lemma push_try_fetch_failed:
  assumes "push_fields payload = Continue (project_id, commit_id)"
    and "requests_get w (push_commit_url w s project_id commit_id) (private_token s) = Inr response"
    and "status_code response \<noteq> 200"
  shows "push_try w s payload =
     (Inr (''Error al obtener diff del commit: '' @ str_int (status_code response), 500),
      [RequestsGet (push_commit_url w s project_id commit_id) (private_token s)])"
  using assms by (simp add: push_try_def Let_def)

lemma mr_try_diffs_failed:
  assumes "mr_fields payload = Continue (project_id, mr_id)"
    and "requests_get w (mr_changes_url w s project_id mr_id) (private_token s) = Inr response"
    and "status_code response = 200"
    and "mr_diffs response = Inl e"
  shows "mr_try w s payload =
     (Inl e, [RequestsGet (mr_changes_url w s project_id mr_id) (private_token s)])"
  using assms by (simp add: mr_try_def Let_def)

text \<open>The status codes a handler can answer with.\<close>

lemma and_then_Return:
  "and_then x f = Return r \<Longrightarrow> \<exists>v. x = Inr v \<and> f v = Return r"
  by (cases x) auto

lemma mr_fields_Return:
  "mr_fields payload = Return r \<Longrightarrow> r = (''No es un MR de apertura'', 200)"
  unfolding mr_fields_def
  by (auto dest!: and_then_Return split: if_splits)

lemma push_fields_Return: "push_fields payload \<noteq> Return r"
  unfolding push_fields_def
  by (auto dest!: and_then_Return)

lemma mr_except_status: "snd (mr_except e) = 400 \<or> snd (mr_except e) = 500"
  by (cases e) auto

lemma push_except_status: "snd (push_except e) = 400 \<or> snd (push_except e) = 500"
  by (cases e) auto

lemma mr_try_status:
  "fst (mr_try w s payload) = Inr r \<Longrightarrow> snd r = 200 \<or> snd r = 500"
  by (auto simp: mr_try_def Let_def dest: mr_fields_Return
      split: step.splits sum.splits if_splits prod.splits)

lemma push_try_status:
  "fst (push_try w s payload) = Inr r \<Longrightarrow> snd r = 200 \<or> snd r = 500"
  by (auto simp: push_try_def Let_def push_fields_Return
      split: step.splits sum.splits if_splits prod.splits)

lemma process_merge_request_status:
  "process_merge_request w s payload = ((body, st), evs) \<Longrightarrow> st = 200 \<or> st = 400 \<or> st = 500"
proof (cases "fst (mr_try w s payload)")
  case (Inl e)
  assume "process_merge_request w s payload = ((body, st), evs)"
  with Inl show ?thesis
    using mr_except_status [of e]
    by (auto simp: process_merge_request_def split: prod.splits)
next
  case (Inr r)
  assume "process_merge_request w s payload = ((body, st), evs)"
  with Inr show ?thesis
    using mr_try_status [of w s payload r]
    by (auto simp: process_merge_request_def split: prod.splits)
qed

lemma process_push_event_status:
  "process_push_event w s payload = ((body, st), evs) \<Longrightarrow> st = 200 \<or> st = 400 \<or> st = 500"
proof (cases "fst (push_try w s payload)")
  case (Inl e)
  assume "process_push_event w s payload = ((body, st), evs)"
  with Inl show ?thesis
    using push_except_status [of e]
    by (auto simp: process_push_event_def split: prod.splits)
next
  case (Inr r)
  assume "process_push_event w s payload = ((body, st), evs)"
  with Inr show ?thesis
    using push_try_status [of w s payload r]
    by (auto simp: process_push_event_def split: prod.splits)
qed

lemma webhook_authenticated_status:
  assumes "gitlab_token_header req = environ s ''EXPECTED_GITLAB_TOKEN''"
  shows "snd (fst (post_webhook w s req)) \<in> {200, 400, 500}"
  using assms
  by (auto simp: post_webhook_def webhook_def internal_error_def Let_def
      split: sum.splits prod.splits
      dest: process_merge_request_status process_push_event_status)

lemma webhook_authenticated_events:
  assumes "gitlab_token_header req = environ s ''EXPECTED_GITLAB_TOKEN''"
  shows "\<exists>evs. snd (post_webhook w s req) = RequestJson # evs"
  using assms
  by (auto simp: post_webhook_def webhook_def internal_error_def Let_def
      split: sum.splits prod.splits)

text \<open>A list of dicts one of which lacks a key: reading the key of each raises.\<close>

lemma map_exn_missing_key:
  "list_all is_dict cs \<Longrightarrow> \<not> list_all (has_key k) cs \<Longrightarrow>
   map_exn (\<lambda>c. subscript c k) cs = Inl (KeyError k)"
proof (induction cs)
  case Nil
  then show ?case by simp
next
  case (Cons c cs)
  then obtain kvs where c: "c = JObj kvs" by (cases c) auto
  show ?case
  proof (cases "map_of kvs k")
    case None
    then show ?thesis by (simp add: c)
  next
    case (Some v)
    with Cons c show ?thesis by simp
  qed
qed

text \<open>The example inputs, evaluated.\<close>

lemma mr_payload_fields: "mr_fields mr_payload = Continue (JInt 1, JInt 5)"
  by (simp add: mr_fields_def mr_payload_def)

lemma push_payload_fields: "push_fields push_payload = Continue (JInt 1, JStr ''abc123def456'')"
  by (simp add: push_fields_def push_payload_def)

lemma mr_changes_ok_diffs: "mr_diffs mr_changes_ok = Inr ''+x''"
  by (simp add: mr_diffs_def mr_changes_ok_def str_join_def)

lemma commit_diff_ok_changes: "push_changes w commit_diff_ok = Inr ''+x-y''"
  by (simp add: push_changes_def commit_diff_ok_def)

lemma str_int_1: "str_int 1 = ''1''"
  by (simp add: str_int_def str_nat.simps digit_char_def)

lemma str_int_5: "str_int 5 = ''5''"
  by (simp add: str_int_def str_nat.simps digit_char_def)

lemma str_int_404: "str_int 404 = ''404''"
  by (simp add: str_int_def str_nat.simps digit_char_def)

lemma example_mr_changes_url:
  "mr_changes_url (example_world f r p) example_settings (JInt 1) (JInt 5) =
     ''https://gitlab.example.com/api/v4/projects/1/merge_requests/5/changes''"
  by (simp add: mr_changes_url_def example_settings_def load_settings_def example_env_def
      str_int_1 str_int_5)

lemma example_mr_comment_url:
  "mr_comment_url (example_world f r p) example_settings (JInt 1) (JInt 5) =
     ''https://gitlab.example.com/api/v4/projects/1/merge_requests/5/notes''"
  by (simp add: mr_comment_url_def example_settings_def load_settings_def example_env_def
      str_int_1 str_int_5)

lemma example_push_commit_url:
  "push_commit_url (example_world f r p) example_settings (JInt 1) (JStr ''abc123def456'') =
     ''https://gitlab.example.com/api/v4/projects/1/repository/commits/abc123def456/diff''"
  by (simp add: push_commit_url_def example_settings_def load_settings_def example_env_def
      str_int_1)

lemma example_push_comment_url:
  "push_comment_url (example_world f r p) example_settings (JInt 1) (JStr ''abc123def456'') =
     ''https://gitlab.example.com/api/v4/projects/1/repository/commits/abc123def456/comments''"
  by (simp add: push_comment_url_def example_settings_def load_settings_def example_env_def
      str_int_1)

lemma example_private_token:
  "private_token example_settings = [(''Private-Token'', Some ''glpat-test'')]"
  by (simp add: private_token_def example_settings_def load_settings_def example_env_def)

lemma status_facts:
  "status_code mr_changes_ok = 200" "status_code commit_diff_ok = 200"
  "status_code not_found = 404" "status_code created = 201" "status_code forbidden = 403"
  by (simp_all add: mr_changes_ok_def commit_diff_ok_def not_found_def created_def forbidden_def)

lemma example_world_simps:
  "requests_get (example_world f r p) url hs = f"
  "requests_post (example_world f r p) url hs body = p"
  "mr_review (example_world f r p) s diffs = r"
  "push_review (example_world f r p) s changes_string = r"
  by (simp_all add: example_world_def mr_review_def push_review_def)

text \<open>What a handler answers, from what its outer \<open>try\<close> gives.\<close>

lemma process_merge_request_events:
  "snd (process_merge_request w s payload) = snd (mr_try w s payload)"
  by (simp add: process_merge_request_def split: prod.splits sum.splits)

lemma process_push_event_events:
  "snd (process_push_event w s payload) = snd (push_try w s payload)"
  by (simp add: process_push_event_def split: prod.splits sum.splits)

lemma process_merge_request_returned:
  "fst (mr_try w s payload) = Inr r \<Longrightarrow> fst (process_merge_request w s payload) = r"
  by (cases "mr_try w s payload") (auto simp: process_merge_request_def)

lemma process_merge_request_raised:
  "fst (mr_try w s payload) = Inl e \<Longrightarrow> fst (process_merge_request w s payload) = mr_except e"
  by (cases "mr_try w s payload") (auto simp: process_merge_request_def)

lemma process_push_event_raised:
  "fst (push_try w s payload) = Inl e \<Longrightarrow> fst (process_push_event w s payload) = push_except e"
  by (cases "push_try w s payload") (auto simp: process_push_event_def)

lemma process_push_event_returned:
  "fst (push_try w s payload) = Inr r \<Longrightarrow> fst (process_push_event w s payload) = r"
  by (cases "push_try w s payload") (auto simp: process_push_event_def)

lemma mr_reached_events:
  assumes "mr_fields payload = Continue (project_id, mr_id)"
    and "requests_get w (mr_changes_url w s project_id mr_id) (private_token s) = Inr response"
    and "status_code response = 200"
    and "mr_diffs response = Inr diffs"
  shows "snd (process_merge_request w s payload) =
      [RequestsGet (mr_changes_url w s project_id mr_id) (private_token s),
       mr_review_call s diffs,
       RequestsPost (mr_comment_url w s project_id mr_id) (private_token s)
         (JObj [(''body'', JStr (mr_answer (mr_review w s diffs)))])]"
  by (simp add: process_merge_request_events mr_try_reached [OF assms])

lemma push_reached_events:
  assumes "push_fields payload = Continue (project_id, commit_id)"
    and "requests_get w (push_commit_url w s project_id commit_id) (private_token s) = Inr response"
    and "status_code response = 200"
    and "push_changes w response = Inr changes_string"
  shows "snd (process_push_event w s payload) =
      [RequestsGet (push_commit_url w s project_id commit_id) (private_token s),
       push_review_call s changes_string,
       RequestsPost (push_comment_url w s project_id commit_id) (private_token s)
         (JObj [(''note'', JStr (push_answer (push_review w s changes_string)))])]"
  by (simp add: process_push_event_events push_try_reached [OF assms])

lemma mr_reached_result:
  assumes "mr_fields payload = Continue (project_id, mr_id)"
    and "requests_get w (mr_changes_url w s project_id mr_id) (private_token s) = Inr response"
    and "status_code response = 200"
    and "mr_diffs response = Inr diffs"
    and "requests_post w (mr_comment_url w s project_id mr_id) (private_token s)
           (JObj [(''body'', JStr (mr_answer (mr_review w s diffs)))]) = Inr comment_response"
  shows "fst (process_merge_request w s payload) = (''OK'', 200)"
  by (rule process_merge_request_returned)
     (simp add: mr_try_reached [OF assms(1-4)] assms(5))

lemma push_reached_result:
  assumes "push_fields payload = Continue (project_id, commit_id)"
    and "requests_get w (push_commit_url w s project_id commit_id) (private_token s) = Inr response"
    and "status_code response = 200"
    and "push_changes w response = Inr changes_string"
    and "requests_post w (push_comment_url w s project_id commit_id) (private_token s)
           (JObj [(''note'', JStr (push_answer (push_review w s changes_string)))]) = Inr comment_response"
  shows "fst (process_push_event w s payload) = (''OK'', 200)"
  by (rule process_push_event_returned)
     (simp add: push_try_reached [OF assms(1-4)] assms(5))

section \<open>Claims\<close>

subsection \<open>The health check\<close>

text \<open>
  The status of \<open>health_check\<close> is 200 exactly when the four required values and the
  Azure base URL are all set and not empty: the flag \<open>azure_configured\<close> is one of the
  values of the dict that \<open>all(status.values())\<close> reads.
\<close>

lemma health_check_status:
  "snd (health_check s) =
     (if truthy_opt (openai_api_key s) \<and> truthy_opt (gitlab_token s) \<and> truthy_opt (gitlab_url s)
         \<and> truthy_opt (environ s ''EXPECTED_GITLAB_TOKEN'')
         \<and> truthy_opt (environ s ''AZURE_OPENAI_API_BASE'')
      then 200 else 500)"
  by (simp add: health_check_def health_status_def Let_def)

text \<open>
  C1. The claim: whenever the four required configuration values are present, the
  health check answers 200, and the optional Azure base URL has no influence. The code
  does otherwise: in the example environment \<open>validate_environment\<close> finds nothing
  missing, the Azure base URL is not set, and \<open>health_check\<close> answers 500.
\<close>

theorem health_check_without_azure:
  "validate_environment example_env = Inr ()
   \<and> environ example_settings ''AZURE_OPENAI_API_BASE'' = None
   \<and> snd (health_check example_settings) = 500"
  by (simp add: validate_environment_def required_vars_def example_env_def
      health_check_status example_settings_def load_settings_def)

subsection \<open>The model of the review call\<close>

text \<open>
  The push handler asks for the configured model, or for \<open>gpt-3.5-turbo\<close> when none is
  configured.
\<close>

lemma push_model_configured:
  "environ s ''OPENAI_API_MODEL'' = Some m \<Longrightarrow> m \<noteq> [] \<Longrightarrow> push_model s = m"
  by (simp add: push_model_def)

lemma push_model_default:
  "environ s ''OPENAI_API_MODEL'' = None \<Longrightarrow> push_model s = ''gpt-3.5-turbo''"
  by (simp add: push_model_def)

text \<open>
  C2. The claim: both handlers ask for the configured model. The merge request handler
  does otherwise: with \<open>OPENAI_API_MODEL\<close> set to \<open>gpt-4\<close>, its review call names the
  model \<open>llama-3.1-8b-instant\<close>.
\<close>

theorem mr_review_ignores_configured_model:
  "environ gpt4_settings ''OPENAI_API_MODEL'' = Some ''gpt-4''
   \<and> snd (process_merge_request
            (example_world (Inr mr_changes_ok) (Inr ''LGTM'') (Inr created))
            gpt4_settings mr_payload) ! 1
       = ResponsesCreate (Some ''sk-test'') ''https://api.groq.com/openai/v1''
           ''llama-3.1-8b-instant'' (mr_input ''+x'')"
proof -
  let ?w = "example_world (Inr mr_changes_ok) (Inr ''LGTM'') (Inr created)"
  have get: "requests_get ?w (mr_changes_url ?w gpt4_settings (JInt 1) (JInt 5))
               (private_token gpt4_settings) = Inr mr_changes_ok"
    by (simp add: example_world_simps)
  have st: "status_code mr_changes_ok = 200"
    by (simp add: mr_changes_ok_def)
  have "snd (process_merge_request ?w gpt4_settings mr_payload) ! 1
          = mr_review_call gpt4_settings ''+x''"
    by (simp add: mr_reached_events [OF mr_payload_fields get st mr_changes_ok_diffs])
  then show ?thesis
    by (simp add: mr_review_call_def gpt4_settings_def load_settings_def example_env_def)
qed

subsection \<open>The attribution marker\<close>

text \<open>
  C3, as stated, fails: when the review call of the merge request handler raises
  \<open>boom\<close>, the comment that is posted ends with the error text, not with the
  attribution marker.
\<close>

theorem mr_fallback_comment_not_suffixed:
  "snd (process_merge_request
          (example_world (Inr mr_changes_ok) (Inl (OtherError ''boom'')) (Inr created))
          example_settings mr_payload) ! 2
     = RequestsPost ''https://gitlab.example.com/api/v4/projects/1/merge_requests/5/notes''
         [(''Private-Token'', Some ''glpat-test'')] (JObj [(''body'', JStr boom_comment)])
   \<and> \<not> suffix attribution boom_comment"
proof -
  let ?w = "example_world (Inr mr_changes_ok) (Inl (OtherError ''boom'')) (Inr created)"
  have get: "requests_get ?w (mr_changes_url ?w example_settings (JInt 1) (JInt 5))
               (private_token example_settings) = Inr mr_changes_ok"
    by (simp add: example_world_simps)
  have st: "status_code mr_changes_ok = 200"
    by (simp add: mr_changes_ok_def)
  have "snd (process_merge_request ?w example_settings mr_payload) ! 2
          = RequestsPost ''https://gitlab.example.com/api/v4/projects/1/merge_requests/5/notes''
              [(''Private-Token'', Some ''glpat-test'')] (JObj [(''body'', JStr boom_comment)])"
    by (simp add: mr_reached_events [OF mr_payload_fields get st mr_changes_ok_diffs]
        example_world_simps example_mr_comment_url example_private_token mr_apology_def attribution_def boom_comment_def)
  moreover have "\<not> suffix attribution boom_comment"
    by (simp add: suffix_to_prefix attribution_def boom_comment_def)
  ultimately show ?thesis by simp
qed

lemma mr_answer_success: "suffix attribution (mr_answer (Inr output_text))"
  by (simp add: suffixI)

lemma push_answer_success: "suffix attribution (push_answer (Inr content))"
  by (simp add: suffixI)

text \<open>
  C3, amended. In both handlers the comment that is posted ends with the attribution
  marker when the review call succeeds; when the review call fails it is the apology,
  then the attribution marker, then \<open>Error:\<close> and the text of the failure.
\<close>

theorem review_comment_attribution:
  "(mr_fields payload = Continue (project_id, mr_id) \<longrightarrow>
    requests_get w (mr_changes_url w s project_id mr_id) (private_token s) = Inr response \<longrightarrow>
    status_code response = 200 \<longrightarrow>
    mr_diffs response = Inr diffs \<longrightarrow>
      (\<exists>answer.
         snd (process_merge_request w s payload) ! 2 =
           RequestsPost (mr_comment_url w s project_id mr_id) (private_token s)
             (JObj [(''body'', JStr answer)])
         \<and> (case mr_review w s diffs of
               Inr output_text \<Rightarrow> suffix attribution answer
             | Inl e \<Rightarrow>
                 answer = mr_apology @ attribution @ ''\<newline>\<newline>Error: '' @ exn_str e)))
   \<and> (push_fields payload' = Continue (project_id', commit_id) \<longrightarrow>
    requests_get w' (push_commit_url w' s' project_id' commit_id) (private_token s')
      = Inr response' \<longrightarrow>
    status_code response' = 200 \<longrightarrow>
    push_changes w' response' = Inr changes_string \<longrightarrow>
      (\<exists>answer.
         snd (process_push_event w' s' payload') ! 2 =
           RequestsPost (push_comment_url w' s' project_id' commit_id) (private_token s')
             (JObj [(''note'', JStr answer)])
         \<and> (case push_review w' s' changes_string of
               Inr content \<Rightarrow> suffix attribution answer
             | Inl e \<Rightarrow>
                 answer = push_apology @ attribution @ ''\<newline>\<newline>Error: '' @ exn_str e)))"
proof (intro conjI impI)
  assume a: "mr_fields payload = Continue (project_id, mr_id)"
    "requests_get w (mr_changes_url w s project_id mr_id) (private_token s) = Inr response"
    "status_code response = 200" "mr_diffs response = Inr diffs"
  have "case mr_review w s diffs of
          Inr output_text \<Rightarrow> suffix attribution (mr_answer (mr_review w s diffs))
        | Inl e \<Rightarrow> mr_answer (mr_review w s diffs)
                    = mr_apology @ attribution @ ''\<newline>\<newline>Error: '' @ exn_str e"
    by (cases "mr_review w s diffs") (simp_all add: suffixI)
  then show "\<exists>answer.
         snd (process_merge_request w s payload) ! 2 =
           RequestsPost (mr_comment_url w s project_id mr_id) (private_token s)
             (JObj [(''body'', JStr answer)])
         \<and> (case mr_review w s diffs of
               Inr output_text \<Rightarrow> suffix attribution answer
             | Inl e \<Rightarrow>
                 answer = mr_apology @ attribution @ ''\<newline>\<newline>Error: '' @ exn_str e)"
    by (intro exI [of _ "mr_answer (mr_review w s diffs)"])
       (simp add: mr_reached_events [OF a])
next
  assume a: "push_fields payload' = Continue (project_id', commit_id)"
    "requests_get w' (push_commit_url w' s' project_id' commit_id) (private_token s')
       = Inr response'"
    "status_code response' = 200" "push_changes w' response' = Inr changes_string"
  have "case push_review w' s' changes_string of
          Inr content \<Rightarrow> suffix attribution (push_answer (push_review w' s' changes_string))
        | Inl e \<Rightarrow> push_answer (push_review w' s' changes_string)
                    = push_apology @ attribution @ ''\<newline>\<newline>Error: '' @ exn_str e"
    by (cases "push_review w' s' changes_string") (simp_all add: suffixI)
  then show "\<exists>answer.
         snd (process_push_event w' s' payload') ! 2 =
           RequestsPost (push_comment_url w' s' project_id' commit_id) (private_token s')
             (JObj [(''note'', JStr answer)])
         \<and> (case push_review w' s' changes_string of
               Inr content \<Rightarrow> suffix attribution answer
             | Inl e \<Rightarrow>
                 answer = push_apology @ attribution @ ''\<newline>\<newline>Error: '' @ exn_str e)"
    by (intro exI [of _ "push_answer (push_review w' s' changes_string)"])
       (simp add: push_reached_events [OF a])
qed

text \<open>
  The amended statement on the two example payloads: a review that succeeds in the merge
  request handler, one that fails in the push handler.
\<close>

theorem review_comment_attribution_witness:
  "(\<exists>answer.
      snd (process_merge_request
             (example_world (Inr mr_changes_ok) (Inr ''LGTM'') (Inr created))
             example_settings mr_payload) ! 2
        = RequestsPost ''https://gitlab.example.com/api/v4/projects/1/merge_requests/5/notes''
            [(''Private-Token'', Some ''glpat-test'')] (JObj [(''body'', JStr answer)])
      \<and> suffix attribution answer)
   \<and> (\<exists>answer.
      snd (process_push_event
             (example_world (Inr commit_diff_ok) (Inl (OtherError ''boom'')) (Inr created))
             example_settings push_payload) ! 2
        = RequestsPost
            ''https://gitlab.example.com/api/v4/projects/1/repository/commits/abc123def456/comments''
            [(''Private-Token'', Some ''glpat-test'')] (JObj [(''note'', JStr answer)])
      \<and> answer = push_apology @ attribution @ ''\<newline>\<newline>Error: boom'')"
  using review_comment_attribution
    [where payload = mr_payload and project_id = "JInt 1" and mr_id = "JInt 5"
       and w = "example_world (Inr mr_changes_ok) (Inr ''LGTM'') (Inr created)"
       and s = example_settings and response = mr_changes_ok and diffs = "''+x''"
       and payload' = push_payload and project_id' = "JInt 1"
       and commit_id = "JStr ''abc123def456''"
       and w' = "example_world (Inr commit_diff_ok) (Inl (OtherError ''boom'')) (Inr created)"
       and s' = example_settings and response' = commit_diff_ok
       and changes_string = "''+x-y''"]
  by (simp add: mr_payload_fields push_payload_fields example_world_simps status_facts
      mr_changes_ok_diffs commit_diff_ok_changes example_mr_comment_url
      example_push_comment_url example_private_token)

subsection \<open>Authentication\<close>

text \<open>
  C4. A request whose \<open>X-Gitlab-Token\<close> header is not equal to the configured secret
  (a missing header included) is answered 403, and nothing else happens: the body is
  not read, no handler runs, no call leaves the process.
\<close>

theorem webhook_rejects_wrong_token:
  "gitlab_token_header req \<noteq> environ s ''EXPECTED_GITLAB_TOKEN'' \<Longrightarrow>
   post_webhook w s req = ((''No autorizado'', 403), [])"
  by (simp add: post_webhook_def webhook_def)

text \<open>A missing header and a token one character short, against the example secret.\<close>

theorem webhook_rejects_wrong_token_witness:
  "post_webhook (example_world (Inr mr_changes_ok) (Inr ''LGTM'') (Inr created)) example_settings
       \<lparr> gitlab_token_header = None, request_json = Inr mr_payload \<rparr>
     = ((''No autorizado'', 403), [])
   \<and> post_webhook (example_world (Inr mr_changes_ok) (Inr ''LGTM'') (Inr created)) example_settings
       \<lparr> gitlab_token_header = Some ''test-token-12'', request_json = Inr mr_payload \<rparr>
     = ((''No autorizado'', 403), [])"
  using webhook_rejects_wrong_token
    [of "\<lparr> gitlab_token_header = None, request_json = Inr mr_payload \<rparr>" example_settings
       "example_world (Inr mr_changes_ok) (Inr ''LGTM'') (Inr created)"]
    webhook_rejects_wrong_token
    [of "\<lparr> gitlab_token_header = Some ''test-token-12'', request_json = Inr mr_payload \<rparr>"
       example_settings "example_world (Inr mr_changes_ok) (Inr ''LGTM'') (Inr created)"]
  by (simp add: example_settings_def load_settings_def example_env_def)

text \<open>
  C9. When the request carries no \<open>X-Gitlab-Token\<close> header and no secret is configured
  at the time of the request, the comparison of \<open>None\<close> with \<open>None\<close> lets the request
  through: the answer is not 403, and the body is read.
\<close>

theorem missing_secret_bypasses_authentication:
  assumes "gitlab_token_header req = None"
    and "environ s ''EXPECTED_GITLAB_TOKEN'' = None"
  shows "snd (fst (post_webhook w s req)) \<noteq> 403
         \<and> (\<exists>evs. snd (post_webhook w s req) = RequestJson # evs)"
proof -
  have eq: "gitlab_token_header req = environ s ''EXPECTED_GITLAB_TOKEN''"
    using assms by simp
  from webhook_authenticated_status [OF eq, of w]
  have "snd (fst (post_webhook w s req)) \<noteq> 403" by auto
  with webhook_authenticated_events [OF eq, of w] show ?thesis by simp
qed

text \<open>The example environment without its secret, and a request without the header.\<close>

theorem missing_secret_bypasses_authentication_witness:
  "gitlab_token_header \<lparr> gitlab_token_header = None, request_json = Inr mr_payload \<rparr> = None
   \<and> environ unguarded_settings ''EXPECTED_GITLAB_TOKEN'' = None
   \<and> snd (fst (post_webhook
          (example_world (Inr mr_changes_ok) (Inr ''LGTM'') (Inr created)) unguarded_settings
          \<lparr> gitlab_token_header = None, request_json = Inr mr_payload \<rparr>)) \<noteq> 403
   \<and> (\<exists>evs. snd (post_webhook
          (example_world (Inr mr_changes_ok) (Inr ''LGTM'') (Inr created)) unguarded_settings
          \<lparr> gitlab_token_header = None, request_json = Inr mr_payload \<rparr>) = RequestJson # evs)"
  using missing_secret_bypasses_authentication
    [of "\<lparr> gitlab_token_header = None, request_json = Inr mr_payload \<rparr>" unguarded_settings
       "example_world (Inr mr_changes_ok) (Inr ''LGTM'') (Inr created)"]
  by (simp add: unguarded_settings_def)

text \<open>That request is served like an authenticated one: the review is posted.\<close>

lemma unauthenticated_request_is_served:
  "fst (post_webhook
          (example_world (Inr mr_changes_ok) (Inr ''LGTM'') (Inr created)) unguarded_settings
          \<lparr> gitlab_token_header = None, request_json = Inr mr_payload \<rparr>) = (''OK'', 200)"
proof -
  let ?w = "example_world (Inr mr_changes_ok) (Inr ''LGTM'') (Inr created)"
  have "fst (process_merge_request ?w unguarded_settings mr_payload) = (''OK'', 200)"
    by (rule mr_reached_result [OF mr_payload_fields _ _ mr_changes_ok_diffs])
       (simp_all add: example_world_simps status_facts)
  moreover have "dict_get mr_payload ''object_kind'' JNull = Inr (JStr ''merge_request'')"
    by (simp add: mr_payload_def)
  moreover have "truthy mr_payload"
    by (simp add: mr_payload_def)
  ultimately show ?thesis
    by (auto simp: post_webhook_def webhook_def unguarded_settings_def split: prod.splits)
qed

subsection \<open>Event kinds\<close>

text \<open>
  C5, as stated, fails: an authenticated request whose payload is the JSON list \<open>[1]\<close>,
  which is not empty and has no \<open>object_kind\<close>, is answered 500.
\<close>

theorem non_object_payload_answered_500:
  "gitlab_token_header \<lparr> gitlab_token_header = Some ''test-token-123'',
                            request_json = Inr (JList [JInt 1]) \<rparr>
     = environ example_settings ''EXPECTED_GITLAB_TOKEN''
   \<and> truthy (JList [JInt 1])
   \<and> post_webhook (example_world (Inr mr_changes_ok) (Inr ''LGTM'') (Inr created))
         example_settings
         \<lparr> gitlab_token_header = Some ''test-token-123'',
           request_json = Inr (JList [JInt 1]) \<rparr>
       = ((''Error interno del servidor'', 500), [RequestJson])"
  by (simp add: post_webhook_def webhook_def internal_error_def example_settings_def
      load_settings_def example_env_def)

text \<open>
  C5, amended. An authenticated request whose payload is a JSON object that is not empty,
  and whose \<open>object_kind\<close> is neither \<open>merge_request\<close> nor \<open>push\<close> (or is absent), is
  answered 200 with a body that names the kind, and no call leaves the process.
\<close>

theorem unsupported_event_kind:
  assumes "gitlab_token_header req = environ s ''EXPECTED_GITLAB_TOKEN''"
    and "request_json req = Inr (JObj kvs)"
    and "kvs \<noteq> []"
    and "map_of kvs ''object_kind'' \<noteq> Some (JStr ''merge_request'')"
    and "map_of kvs ''object_kind'' \<noteq> Some (JStr ''push'')"
  shows "post_webhook w s req =
           ((''Tipo de evento no soportado: ''
             @ py_str (py_repr w) (case map_of kvs ''object_kind'' of None \<Rightarrow> JNull | Some v \<Rightarrow> v),
             200),
            [RequestJson])
         \<and> filter outbound (snd (post_webhook w s req)) = []"
  using assms
  by (auto simp: post_webhook_def webhook_def split: option.splits)

text \<open>An event kind that is not handled, and a payload without \<open>object_kind\<close>.\<close>

theorem unsupported_event_kind_witness:
  "post_webhook (example_world (Inr mr_changes_ok) (Inr ''LGTM'') (Inr created)) example_settings
       \<lparr> gitlab_token_header = Some ''test-token-123'',
         request_json = Inr (JObj [(''object_kind'', JStr ''note''), (''project_id'', JInt 1)]) \<rparr>
     = ((''Tipo de evento no soportado: note'', 200), [RequestJson])
   \<and> post_webhook (example_world (Inr mr_changes_ok) (Inr ''LGTM'') (Inr created)) example_settings
       \<lparr> gitlab_token_header = Some ''test-token-123'',
         request_json = Inr (JObj [(''project_id'', JInt 1)]) \<rparr>
     = ((''Tipo de evento no soportado: None'', 200), [RequestJson])"
  using unsupported_event_kind
    [where req = "\<lparr> gitlab_token_header = Some ''test-token-123'',
         request_json = Inr (JObj [(''object_kind'', JStr ''note''), (''project_id'', JInt 1)]) \<rparr>"
       and s = example_settings
       and kvs = "[(''object_kind'', JStr ''note''), (''project_id'', JInt 1)]"
       and w = "example_world (Inr mr_changes_ok) (Inr ''LGTM'') (Inr created)"]
    unsupported_event_kind
    [where req = "\<lparr> gitlab_token_header = Some ''test-token-123'',
         request_json = Inr (JObj [(''project_id'', JInt 1)]) \<rparr>"
       and s = example_settings
       and kvs = "[(''project_id'', JInt 1)]"
       and w = "example_world (Inr mr_changes_ok) (Inr ''LGTM'') (Inr created)"]
  by (simp add: example_settings_def load_settings_def example_env_def)

text \<open>
  A payload that is not a dict has no \<open>get\<close>: the \<open>AttributeError\<close> leaves
  \<open>webhook\<close>, and the application answers 500.
\<close>

lemma payload_without_get:
  assumes "gitlab_token_header req = environ s ''EXPECTED_GITLAB_TOKEN''"
    and "request_json req = Inr payload"
    and "truthy payload" and "\<not> is_dict payload"
  shows "post_webhook w s req = ((''Error interno del servidor'', 500), [RequestJson])"
  using assms
  by (cases payload) (simp_all add: post_webhook_def webhook_def internal_error_def)

subsection \<open>Failures of the calls\<close>

text \<open>
  C6. In both handlers, when the fetch of the changes answers with a status other than
  200, the handler answers 500 with that status in the body, and the fetch is the only
  call made: no review is asked for and no comment is posted.
\<close>

theorem fetch_failure_gives_500:
  "(mr_fields payload = Continue (project_id, mr_id) \<longrightarrow>
    requests_get w (mr_changes_url w s project_id mr_id) (private_token s) = Inr response \<longrightarrow>
    status_code response \<noteq> 200 \<longrightarrow>
      process_merge_request w s payload =
        ((''Error al obtener cambios del MR: '' @ str_int (status_code response), 500),
         [RequestsGet (mr_changes_url w s project_id mr_id) (private_token s)]))
   \<and> (push_fields payload' = Continue (project_id', commit_id) \<longrightarrow>
    requests_get w' (push_commit_url w' s' project_id' commit_id) (private_token s')
      = Inr response' \<longrightarrow>
    status_code response' \<noteq> 200 \<longrightarrow>
      process_push_event w' s' payload' =
        ((''Error al obtener diff del commit: '' @ str_int (status_code response'), 500),
         [RequestsGet (push_commit_url w' s' project_id' commit_id) (private_token s')]))"
  by (simp add: process_merge_request_def process_push_event_def
      mr_try_fetch_failed push_try_fetch_failed)

text \<open>Both handlers when GitLab answers 404.\<close>

theorem fetch_failure_gives_500_witness:
  "process_merge_request (example_world (Inr not_found) (Inr ''LGTM'') (Inr created))
       example_settings mr_payload
     = ((''Error al obtener cambios del MR: 404'', 500),
        [RequestsGet ''https://gitlab.example.com/api/v4/projects/1/merge_requests/5/changes''
           [(''Private-Token'', Some ''glpat-test'')]])
   \<and> process_push_event (example_world (Inr not_found) (Inr ''LGTM'') (Inr created))
       example_settings push_payload
     = ((''Error al obtener diff del commit: 404'', 500),
        [RequestsGet
           ''https://gitlab.example.com/api/v4/projects/1/repository/commits/abc123def456/diff''
           [(''Private-Token'', Some ''glpat-test'')]])"
  using fetch_failure_gives_500
    [where payload = mr_payload and project_id = "JInt 1" and mr_id = "JInt 5"
       and w = "example_world (Inr not_found) (Inr ''LGTM'') (Inr created)"
       and s = example_settings and response = not_found
       and payload' = push_payload and project_id' = "JInt 1"
       and commit_id = "JStr ''abc123def456''"
       and w' = "example_world (Inr not_found) (Inr ''LGTM'') (Inr created)"
       and s' = example_settings and response' = not_found]
  by (simp add: mr_payload_fields push_payload_fields example_world_simps status_facts
      example_mr_changes_url example_push_commit_url example_private_token str_int_404)

text \<open>
  C7, as stated, fails: when the review call of the merge request handler raises \<open>boom\<close>
  and the post of the comment raises \<open>down\<close>, the handler answers 500.
\<close>

theorem review_and_post_failure_answered_500:
  "responses_create
       (example_world (Inr mr_changes_ok) (Inl (OtherError ''boom'')) (Inl (OtherError ''down'')))
       (environ example_settings ''OPENAI_API_KEY'') ''https://api.groq.com/openai/v1''
       ''llama-3.1-8b-instant'' (mr_input ''+x'')
     = Inl (OtherError ''boom'')
   \<and> process_merge_request
       (example_world (Inr mr_changes_ok) (Inl (OtherError ''boom'')) (Inl (OtherError ''down'')))
       example_settings mr_payload
     = ((''Error procesando MR: down'', 500),
        [RequestsGet ''https://gitlab.example.com/api/v4/projects/1/merge_requests/5/changes''
           [(''Private-Token'', Some ''glpat-test'')],
         ResponsesCreate (Some ''sk-test'') ''https://api.groq.com/openai/v1''
           ''llama-3.1-8b-instant'' (mr_input ''+x''),
         RequestsPost ''https://gitlab.example.com/api/v4/projects/1/merge_requests/5/notes''
           [(''Private-Token'', Some ''glpat-test'')]
           (JObj [(''body'', JStr boom_comment)])])"
proof -
  let ?w = "example_world (Inr mr_changes_ok) (Inl (OtherError ''boom'')) (Inl (OtherError ''down''))"
  have get: "requests_get ?w (mr_changes_url ?w example_settings (JInt 1) (JInt 5))
               (private_token example_settings) = Inr mr_changes_ok"
    by (simp add: example_world_simps)
  have key: "environ example_settings ''OPENAI_API_KEY'' = Some ''sk-test''"
    by (simp add: example_settings_def load_settings_def example_env_def)
  have "process_merge_request ?w example_settings mr_payload
     = ((''Error procesando MR: down'', 500),
        [RequestsGet ''https://gitlab.example.com/api/v4/projects/1/merge_requests/5/changes''
           [(''Private-Token'', Some ''glpat-test'')],
         ResponsesCreate (Some ''sk-test'') ''https://api.groq.com/openai/v1''
           ''llama-3.1-8b-instant'' (mr_input ''+x''),
         RequestsPost ''https://gitlab.example.com/api/v4/projects/1/merge_requests/5/notes''
           [(''Private-Token'', Some ''glpat-test'')]
           (JObj [(''body'', JStr boom_comment)])])"
    by (simp add: process_merge_request_def
        mr_try_reached [OF mr_payload_fields get status_facts(1) mr_changes_ok_diffs]
        example_world_simps example_mr_changes_url example_mr_comment_url
        example_private_token mr_review_call_def key
        mr_apology_def attribution_def boom_comment_def)
  then show ?thesis
    by (simp add: example_world_def)
qed

text \<open>
  C7, amended. In both handlers, when the review call raises, the comment that is posted
  carries the apology, the attribution marker and the text of the failure (under the key
  \<open>body\<close> in the merge request handler, \<open>note\<close> in the push handler). The handler
  answers 200 with \<open>OK\<close> when the post of the comment returns a response; when the post
  itself raises, the outer \<open>except\<close> clauses answer.
\<close>

theorem review_failure_is_absorbed:
  "(mr_fields payload = Continue (project_id, mr_id) \<longrightarrow>
    requests_get w (mr_changes_url w s project_id mr_id) (private_token s) = Inr response \<longrightarrow>
    status_code response = 200 \<longrightarrow>
    mr_diffs response = Inr diffs \<longrightarrow>
    responses_create w (environ s ''OPENAI_API_KEY'') ''https://api.groq.com/openai/v1''
      ''llama-3.1-8b-instant'' (mr_input diffs) = Inl e \<longrightarrow>
      snd (process_merge_request w s payload) =
        [RequestsGet (mr_changes_url w s project_id mr_id) (private_token s),
         ResponsesCreate (environ s ''OPENAI_API_KEY'') ''https://api.groq.com/openai/v1''
           ''llama-3.1-8b-instant'' (mr_input diffs),
         RequestsPost (mr_comment_url w s project_id mr_id) (private_token s)
           (JObj [(''body'',
                   JStr (mr_apology @ attribution @ ''\<newline>\<newline>Error: '' @ exn_str e))])]
      \<and> (requests_post w (mr_comment_url w s project_id mr_id) (private_token s)
            (JObj [(''body'',
                    JStr (mr_apology @ attribution @ ''\<newline>\<newline>Error: '' @ exn_str e))])
            = Inr comment_response \<longrightarrow>
          fst (process_merge_request w s payload) = (''OK'', 200))
      \<and> (requests_post w (mr_comment_url w s project_id mr_id) (private_token s)
            (JObj [(''body'',
                    JStr (mr_apology @ attribution @ ''\<newline>\<newline>Error: '' @ exn_str e))])
            = Inl post_error \<longrightarrow>
          fst (process_merge_request w s payload) = mr_except post_error))
   \<and> (push_fields payload' = Continue (project_id', commit_id) \<longrightarrow>
    requests_get w' (push_commit_url w' s' project_id' commit_id) (private_token s')
      = Inr response' \<longrightarrow>
    status_code response' = 200 \<longrightarrow>
    push_changes w' response' = Inr changes_string \<longrightarrow>
    chat_completion_create w' (environ s' ''OPENAI_API_MODEL'') (push_model s') temperature
      False (push_messages changes_string) = Inl e' \<longrightarrow>
      snd (process_push_event w' s' payload') =
        [RequestsGet (push_commit_url w' s' project_id' commit_id) (private_token s'),
         ChatCompletionCreate (environ s' ''OPENAI_API_MODEL'') (push_model s') temperature
           False (push_messages changes_string),
         RequestsPost (push_comment_url w' s' project_id' commit_id) (private_token s')
           (JObj [(''note'',
                   JStr (push_apology @ attribution @ ''\<newline>\<newline>Error: '' @ exn_str e'))])]
      \<and> (requests_post w' (push_comment_url w' s' project_id' commit_id) (private_token s')
            (JObj [(''note'',
                    JStr (push_apology @ attribution @ ''\<newline>\<newline>Error: '' @ exn_str e'))])
            = Inr comment_response' \<longrightarrow>
          fst (process_push_event w' s' payload') = (''OK'', 200))
      \<and> (requests_post w' (push_comment_url w' s' project_id' commit_id) (private_token s')
            (JObj [(''note'',
                    JStr (push_apology @ attribution @ ''\<newline>\<newline>Error: '' @ exn_str e'))])
            = Inl post_error' \<longrightarrow>
          fst (process_push_event w' s' payload') = push_except post_error'))"
proof (intro conjI impI)
  assume a: "mr_fields payload = Continue (project_id, mr_id)"
    "requests_get w (mr_changes_url w s project_id mr_id) (private_token s) = Inr response"
    "status_code response = 200" "mr_diffs response = Inr diffs"
    and "responses_create w (environ s ''OPENAI_API_KEY'') ''https://api.groq.com/openai/v1''
      ''llama-3.1-8b-instant'' (mr_input diffs) = Inl e"
  then have r: "mr_review w s diffs = Inl e"
    by (simp add: mr_review_def)
  show "snd (process_merge_request w s payload) =
        [RequestsGet (mr_changes_url w s project_id mr_id) (private_token s),
         ResponsesCreate (environ s ''OPENAI_API_KEY'') ''https://api.groq.com/openai/v1''
           ''llama-3.1-8b-instant'' (mr_input diffs),
         RequestsPost (mr_comment_url w s project_id mr_id) (private_token s)
           (JObj [(''body'',
                   JStr (mr_apology @ attribution @ ''\<newline>\<newline>Error: '' @ exn_str e))])]"
    by (simp add: mr_reached_events [OF a] r mr_review_call_def)
  {
    assume "requests_post w (mr_comment_url w s project_id mr_id) (private_token s)
            (JObj [(''body'',
                    JStr (mr_apology @ attribution @ ''\<newline>\<newline>Error: '' @ exn_str e))])
            = Inr comment_response"
    then show "fst (process_merge_request w s payload) = (''OK'', 200)"
      by (simp add: process_merge_request_def mr_try_reached [OF a] r)
  }
  {
    assume "requests_post w (mr_comment_url w s project_id mr_id) (private_token s)
            (JObj [(''body'',
                    JStr (mr_apology @ attribution @ ''\<newline>\<newline>Error: '' @ exn_str e))])
            = Inl post_error"
    then show "fst (process_merge_request w s payload) = mr_except post_error"
      by (simp add: process_merge_request_def mr_try_reached [OF a] r)
  }
next
  assume a: "push_fields payload' = Continue (project_id', commit_id)"
    "requests_get w' (push_commit_url w' s' project_id' commit_id) (private_token s')
      = Inr response'"
    "status_code response' = 200" "push_changes w' response' = Inr changes_string"
    and "chat_completion_create w' (environ s' ''OPENAI_API_MODEL'') (push_model s') temperature
      False (push_messages changes_string) = Inl e'"
  then have r: "push_review w' s' changes_string = Inl e'"
    by (simp add: push_review_def)
  show "snd (process_push_event w' s' payload') =
        [RequestsGet (push_commit_url w' s' project_id' commit_id) (private_token s'),
         ChatCompletionCreate (environ s' ''OPENAI_API_MODEL'') (push_model s') temperature
           False (push_messages changes_string),
         RequestsPost (push_comment_url w' s' project_id' commit_id) (private_token s')
           (JObj [(''note'',
                   JStr (push_apology @ attribution @ ''\<newline>\<newline>Error: '' @ exn_str e'))])]"
    by (simp add: push_reached_events [OF a] r push_review_call_def)
  {
    assume "requests_post w' (push_comment_url w' s' project_id' commit_id) (private_token s')
            (JObj [(''note'',
                    JStr (push_apology @ attribution @ ''\<newline>\<newline>Error: '' @ exn_str e'))])
            = Inr comment_response'"
    then show "fst (process_push_event w' s' payload') = (''OK'', 200)"
      by (simp add: process_push_event_def push_try_reached [OF a] r)
  }
  {
    assume "requests_post w' (push_comment_url w' s' project_id' commit_id) (private_token s')
            (JObj [(''note'',
                    JStr (push_apology @ attribution @ ''\<newline>\<newline>Error: '' @ exn_str e'))])
            = Inl post_error'"
    then show "fst (process_push_event w' s' payload') = push_except post_error'"
      by (simp add: process_push_event_def push_try_reached [OF a] r)
  }
qed

text \<open>
  Both handlers when the review call raises \<open>boom\<close>: with a comment that is created,
  and with a post that raises \<open>down\<close>.
\<close>

theorem review_failure_is_absorbed_witness:
  "process_merge_request
       (example_world (Inr mr_changes_ok) (Inl (OtherError ''boom'')) (Inr created))
       example_settings mr_payload
     = ((''OK'', 200),
        [RequestsGet ''https://gitlab.example.com/api/v4/projects/1/merge_requests/5/changes''
           [(''Private-Token'', Some ''glpat-test'')],
         ResponsesCreate (Some ''sk-test'') ''https://api.groq.com/openai/v1''
           ''llama-3.1-8b-instant'' (mr_input ''+x''),
         RequestsPost ''https://gitlab.example.com/api/v4/projects/1/merge_requests/5/notes''
           [(''Private-Token'', Some ''glpat-test'')]
           (JObj [(''body'',
                   JStr boom_comment)])])
   \<and> process_push_event
       (example_world (Inr commit_diff_ok) (Inl (OtherError ''boom'')) (Inr created))
       example_settings push_payload
     = ((''OK'', 200),
        [RequestsGet
           ''https://gitlab.example.com/api/v4/projects/1/repository/commits/abc123def456/diff''
           [(''Private-Token'', Some ''glpat-test'')],
         ChatCompletionCreate None ''gpt-3.5-turbo'' temperature False (push_messages ''+x-y''),
         RequestsPost
           ''https://gitlab.example.com/api/v4/projects/1/repository/commits/abc123def456/comments''
           [(''Private-Token'', Some ''glpat-test'')]
           (JObj [(''note'',
                   JStr push_boom_comment)])])
   \<and> fst (process_merge_request
       (example_world (Inr mr_changes_ok) (Inl (OtherError ''boom'')) (Inl (OtherError ''down'')))
       example_settings mr_payload)
     = (''Error procesando MR: down'', 500)
   \<and> fst (process_push_event
       (example_world (Inr commit_diff_ok) (Inl (OtherError ''boom'')) (Inl (OtherError ''down'')))
       example_settings push_payload)
     = (''Error procesando push: down'', 500)"
proof -
  have key: "environ example_settings ''OPENAI_API_KEY'' = Some ''sk-test''"
    and model: "environ example_settings ''OPENAI_API_MODEL'' = None"
    by (simp_all add: example_settings_def load_settings_def example_env_def)
  have pm: "push_model example_settings = ''gpt-3.5-turbo''"
    by (simp add: push_model_def model)
  have calls:
    "responses_create (example_world f r p) k b m i = r"
    "chat_completion_create (example_world f r p) d m' t st ms = r"
    for f r p k b m i d m' t st ms
    by (simp_all add: example_world_def)
  note facts = mr_payload_fields push_payload_fields example_world_simps status_facts
      mr_changes_ok_diffs commit_diff_ok_changes example_mr_comment_url
      example_push_comment_url example_mr_changes_url example_push_commit_url
      example_private_token key model pm calls
      mr_apology_def push_apology_def attribution_def boom_comment_def push_boom_comment_def
  have ok: "snd (process_merge_request
       (example_world (Inr mr_changes_ok) (Inl (OtherError ''boom'')) (Inr created))
       example_settings mr_payload)
     = [RequestsGet ''https://gitlab.example.com/api/v4/projects/1/merge_requests/5/changes''
           [(''Private-Token'', Some ''glpat-test'')],
         ResponsesCreate (Some ''sk-test'') ''https://api.groq.com/openai/v1''
           ''llama-3.1-8b-instant'' (mr_input ''+x''),
         RequestsPost ''https://gitlab.example.com/api/v4/projects/1/merge_requests/5/notes''
           [(''Private-Token'', Some ''glpat-test'')]
           (JObj [(''body'',
                   JStr boom_comment)])]
   \<and> fst (process_merge_request
       (example_world (Inr mr_changes_ok) (Inl (OtherError ''boom'')) (Inr created))
       example_settings mr_payload) = (''OK'', 200)
   \<and> snd (process_push_event
       (example_world (Inr commit_diff_ok) (Inl (OtherError ''boom'')) (Inr created))
       example_settings push_payload)
     = [RequestsGet
           ''https://gitlab.example.com/api/v4/projects/1/repository/commits/abc123def456/diff''
           [(''Private-Token'', Some ''glpat-test'')],
         ChatCompletionCreate None ''gpt-3.5-turbo'' temperature False (push_messages ''+x-y''),
         RequestsPost
           ''https://gitlab.example.com/api/v4/projects/1/repository/commits/abc123def456/comments''
           [(''Private-Token'', Some ''glpat-test'')]
           (JObj [(''note'',
                   JStr push_boom_comment)])]
   \<and> fst (process_push_event
       (example_world (Inr commit_diff_ok) (Inl (OtherError ''boom'')) (Inr created))
       example_settings push_payload) = (''OK'', 200)"
    using review_failure_is_absorbed
      [where payload = mr_payload and project_id = "JInt 1" and mr_id = "JInt 5"
         and w = "example_world (Inr mr_changes_ok) (Inl (OtherError ''boom'')) (Inr created)"
         and s = example_settings and response = mr_changes_ok and diffs = "''+x''"
         and e = "OtherError ''boom''" and comment_response = created
         and payload' = push_payload and project_id' = "JInt 1"
         and commit_id = "JStr ''abc123def456''"
         and w' = "example_world (Inr commit_diff_ok) (Inl (OtherError ''boom'')) (Inr created)"
         and s' = example_settings and response' = commit_diff_ok
         and changes_string = "''+x-y''"
         and e' = "OtherError ''boom''" and comment_response' = created]
    by (simp add: facts)
  have down: "fst (process_merge_request
       (example_world (Inr mr_changes_ok) (Inl (OtherError ''boom'')) (Inl (OtherError ''down'')))
       example_settings mr_payload)
     = (''Error procesando MR: down'', 500)
   \<and> fst (process_push_event
       (example_world (Inr commit_diff_ok) (Inl (OtherError ''boom'')) (Inl (OtherError ''down'')))
       example_settings push_payload)
     = (''Error procesando push: down'', 500)"
    using review_failure_is_absorbed
      [where payload = mr_payload and project_id = "JInt 1" and mr_id = "JInt 5"
         and w = "example_world (Inr mr_changes_ok) (Inl (OtherError ''boom''))
                    (Inl (OtherError ''down''))"
         and s = example_settings and response = mr_changes_ok and diffs = "''+x''"
         and e = "OtherError ''boom''" and post_error = "OtherError ''down''"
         and payload' = push_payload and project_id' = "JInt 1"
         and commit_id = "JStr ''abc123def456''"
         and w' = "example_world (Inr commit_diff_ok) (Inl (OtherError ''boom''))
                     (Inl (OtherError ''down''))"
         and s' = example_settings and response' = commit_diff_ok
         and changes_string = "''+x-y''"
         and e' = "OtherError ''boom''" and post_error' = "OtherError ''down''"]
    by (simp add: facts)
  from ok down show ?thesis
    by (simp add: prod_eq_iff)
qed

text \<open>
  C8. In both handlers, when the post of the comment answers with a status other than
  201, the handler still answers 200 with \<open>OK\<close>.
\<close>

theorem comment_post_failure_is_ignored:
  "(mr_fields payload = Continue (project_id, mr_id) \<longrightarrow>
    requests_get w (mr_changes_url w s project_id mr_id) (private_token s) = Inr response \<longrightarrow>
    status_code response = 200 \<longrightarrow>
    mr_diffs response = Inr diffs \<longrightarrow>
    requests_post w (mr_comment_url w s project_id mr_id) (private_token s)
      (JObj [(''body'', JStr (mr_answer (mr_review w s diffs)))]) = Inr comment_response \<longrightarrow>
    status_code comment_response \<noteq> 201 \<longrightarrow>
      fst (process_merge_request w s payload) = (''OK'', 200))
   \<and> (push_fields payload' = Continue (project_id', commit_id) \<longrightarrow>
    requests_get w' (push_commit_url w' s' project_id' commit_id) (private_token s')
      = Inr response' \<longrightarrow>
    status_code response' = 200 \<longrightarrow>
    push_changes w' response' = Inr changes_string \<longrightarrow>
    requests_post w' (push_comment_url w' s' project_id' commit_id) (private_token s')
      (JObj [(''note'', JStr (push_answer (push_review w' s' changes_string)))])
      = Inr comment_response' \<longrightarrow>
    status_code comment_response' \<noteq> 201 \<longrightarrow>
      fst (process_push_event w' s' payload') = (''OK'', 200))"
  using mr_reached_result push_reached_result by blast

text \<open>Both handlers when GitLab answers 403 to the comment.\<close>

theorem comment_post_failure_is_ignored_witness:
  "fst (process_merge_request
          (example_world (Inr mr_changes_ok) (Inr ''LGTM'') (Inr forbidden))
          example_settings mr_payload) = (''OK'', 200)
   \<and> fst (process_push_event
          (example_world (Inr commit_diff_ok) (Inr ''LGTM'') (Inr forbidden))
          example_settings push_payload) = (''OK'', 200)"
  using comment_post_failure_is_ignored
    [where payload = mr_payload and project_id = "JInt 1" and mr_id = "JInt 5"
       and w = "example_world (Inr mr_changes_ok) (Inr ''LGTM'') (Inr forbidden)"
       and s = example_settings and response = mr_changes_ok and diffs = "''+x''"
       and comment_response = forbidden
       and payload' = push_payload and project_id' = "JInt 1"
       and commit_id = "JStr ''abc123def456''"
       and w' = "example_world (Inr commit_diff_ok) (Inr ''LGTM'') (Inr forbidden)"
       and s' = example_settings and response' = commit_diff_ok
       and changes_string = "''+x-y''" and comment_response' = forbidden]
  by (simp add: mr_payload_fields push_payload_fields example_world_simps status_facts
      mr_changes_ok_diffs commit_diff_ok_changes)

subsection \<open>A malformed answer of GitLab\<close>

text \<open>
  The \<open>KeyError\<close> of the missing key leaves \<open>mr_diffs\<close>, as it leaves the statements of
  the handler that read the answer.
\<close>

lemma mr_diffs_no_changes:
  assumes "resp_json response = Inr (JObj kvs)" and "map_of kvs ''changes'' = None"
  shows "mr_diffs response = Inl (KeyError ''changes'')"
  using assms by (simp add: mr_diffs_def)

lemma mr_diffs_no_diff:
  assumes "resp_json response = Inr (JObj kvs)"
    and "map_of kvs ''changes'' = Some (JList changes)"
    and "list_all is_dict changes" and "\<not> list_all (has_key ''diff'') changes"
  shows "mr_diffs response = Inl (KeyError ''diff'')"
  using assms by (simp add: mr_diffs_def map_exn_missing_key)

text \<open>
  C10. In the merge request handler, when the fetch answers 200 with a JSON object that
  has no \<open>changes\<close> key, or whose \<open>changes\<close> is a list of records one of which has no
  \<open>diff\<close> key, the handler answers 400 with the body of a missing payload field, and
  makes no further call.
\<close>

theorem malformed_changes_answered_400:
  assumes "mr_fields payload = Continue (project_id, mr_id)"
    and "requests_get w (mr_changes_url w s project_id mr_id) (private_token s) = Inr response"
    and "status_code response = 200"
    and "resp_json response = Inr (JObj kvs)"
  shows "(map_of kvs ''changes'' = None \<longrightarrow>
            process_merge_request w s payload =
              ((''Campo faltante en el payload: '' @ sq @ ''changes'' @ sq, 400),
               [RequestsGet (mr_changes_url w s project_id mr_id) (private_token s)]))
         \<and> (map_of kvs ''changes'' = Some (JList changes) \<longrightarrow>
            list_all is_dict changes \<longrightarrow> \<not> list_all (has_key ''diff'') changes \<longrightarrow>
            process_merge_request w s payload =
              ((''Campo faltante en el payload: '' @ sq @ ''diff'' @ sq, 400),
               [RequestsGet (mr_changes_url w s project_id mr_id) (private_token s)]))"
proof (intro conjI impI)
  assume "map_of kvs ''changes'' = None"
  then have "mr_diffs response = Inl (KeyError ''changes'')"
    using assms(4) by (rule mr_diffs_no_changes [rotated])
  then show "process_merge_request w s payload =
              ((''Campo faltante en el payload: '' @ sq @ ''changes'' @ sq, 400),
               [RequestsGet (mr_changes_url w s project_id mr_id) (private_token s)])"
    by (simp add: process_merge_request_def mr_try_diffs_failed [OF assms(1-3)])
next
  assume "map_of kvs ''changes'' = Some (JList changes)"
    and "list_all is_dict changes" and "\<not> list_all (has_key ''diff'') changes"
  with assms(4) have "mr_diffs response = Inl (KeyError ''diff'')"
    by (rule mr_diffs_no_diff)
  then show "process_merge_request w s payload =
              ((''Campo faltante en el payload: '' @ sq @ ''diff'' @ sq, 400),
               [RequestsGet (mr_changes_url w s project_id mr_id) (private_token s)])"
    by (simp add: process_merge_request_def mr_try_diffs_failed [OF assms(1-3)])
qed

text \<open>An answer without \<open>changes\<close>, and one whose second record has no \<open>diff\<close>.\<close>

theorem malformed_changes_answered_400_witness:
  "process_merge_request
       (example_world (Inr no_changes_key) (Inr ''LGTM'') (Inr created))
       example_settings mr_payload
     = ((''Campo faltante en el payload: '' @ sq @ ''changes'' @ sq, 400),
        [RequestsGet ''https://gitlab.example.com/api/v4/projects/1/merge_requests/5/changes''
           [(''Private-Token'', Some ''glpat-test'')]])
   \<and> process_merge_request
       (example_world (Inr no_diff_key) (Inr ''LGTM'') (Inr created))
       example_settings mr_payload
     = ((''Campo faltante en el payload: '' @ sq @ ''diff'' @ sq, 400),
        [RequestsGet ''https://gitlab.example.com/api/v4/projects/1/merge_requests/5/changes''
           [(''Private-Token'', Some ''glpat-test'')]])"
  using malformed_changes_answered_400
    [where payload = mr_payload and project_id = "JInt 1" and mr_id = "JInt 5"
       and w = "example_world (Inr no_changes_key) (Inr ''LGTM'') (Inr created)"
       and s = example_settings and response = no_changes_key
       and kvs = "[(''id'', JInt 9), (''title'', JStr ''Test MR'')]"
       and changes = "[]"]
    malformed_changes_answered_400
    [where payload = mr_payload and project_id = "JInt 1" and mr_id = "JInt 5"
       and w = "example_world (Inr no_diff_key) (Inr ''LGTM'') (Inr created)"
       and s = example_settings and response = no_diff_key
       and kvs = "[(''changes'', JList [JObj [(''diff'', JStr ''+x'')],
                                        JObj [(''new_path'', JStr ''a.py'')]])]"
       and changes = "[JObj [(''diff'', JStr ''+x'')], JObj [(''new_path'', JStr ''a.py'')]]"]
  by (simp add: mr_payload_fields example_world_simps example_mr_changes_url
      example_private_token no_changes_key_def no_diff_key_def)

end
